theory Spec2Isabelle
  imports Complex_Main "HOL-Library.Sublist" "HOL-Library.Char_ord" "HOL-Library.List_Lexorder"
    "HOL-Library.Product_Lexorder"
begin

section \<open>Python strings\<close>

text \<open>
  Texts are \<open>string\<close>s over ASCII. \<open>lower\<close> is \<open>str.lower\<close>, \<open>strip\<close> is
  \<open>str.strip\<close> without argument, and \<open>contains s k\<close> is the Python test \<open>k in s\<close>.
  Case mapping and white space outside ASCII are not modelled: such characters are
  left as they are.
\<close>

definition lower_char :: "char \<Rightarrow> char" where
  "lower_char c =
     (if CHR ''A'' \<le> c \<and> c \<le> CHR ''Z'' then char_of (of_char c + (32::nat)) else c)"

definition lower :: "string \<Rightarrow> string" where
  "lower s = map lower_char s"

definition isspace :: "char \<Rightarrow> bool" where
  "isspace c = (c \<in> set [CHR '' '', CHR 0x09, CHR 0x0A, CHR 0x0B, CHR 0x0C, CHR 0x0D,
                         CHR 0x1C, CHR 0x1D, CHR 0x1E, CHR 0x1F])"

definition strip :: "string \<Rightarrow> string" where
  "strip s = rev (dropWhile isspace (rev (dropWhile isspace s)))"

fun contains :: "string \<Rightarrow> string \<Rightarrow> bool" where
  "contains [] k = (k = [])"
| "contains (c # cs) k = (prefix k (c # cs) \<or> contains cs k)"

section \<open>The medium classifier\<close>

text \<open>
  A value of an optional text column is \<open>Some\<close> text, or \<open>None\<close> for pandas' missing
  value NaN. \<open>str_or_empty x\<close> is \<open>str(x or "")\<close>: the empty text is falsy and stays
  empty, every other text is itself, and NaN is truthy and prints as \<open>nan\<close>.
\<close>

definition str_or_empty :: "string option \<Rightarrow> string" where
  "str_or_empty x = (case x of None \<Rightarrow> ''nan'' | Some s \<Rightarrow> s)"

definition categorize_medium :: "string option \<Rightarrow> string option \<Rightarrow> string" where
  "categorize_medium classification medium =
     (let c = lower (str_or_empty classification);
          m = lower (str_or_empty medium);
          combo = c @ '' '' @ m
      in if list_ex (contains combo)
              [''photograph'', ''gelatin silver'', ''albumen print'', ''photo '']
         then ''Photographs''
         else if list_ex (contains combo)
              [''print'', ''engraving'', ''etching'', ''lithograph'', ''woodcut'', ''screenprint'']
         then ''Prints''
         else if list_ex (contains combo)
              [''drawing'', ''graphite'', ''pencil'', ''pen and ink'', ''watercolor'',
               ''watercolour'']
         then ''Drawings''
         else if list_ex (contains combo)
              [''painting'', ''oil on canvas'', ''tempera'', ''acrylic'']
         then ''Paintings''
         else if list_ex (contains combo)
              [''sculpture'', ''bronze'', ''marble'', ''carved stone'']
         then ''Sculpture''
         else if list_ex (contains combo)
              [''textile'', ''tapestry'', ''silk'', ''cotton'', ''linen'', ''wool'']
         then ''Textiles''
         else if list_ex (contains combo)
              [''ceramic'', ''porcelain'', ''earthenware'', ''stoneware'', ''pottery'', ''glass'',
               ''furniture'', ''decorative art'']
         then ''Decorative arts''
         else ''Other'')"

text \<open>
  The specification's wording of the classifier: an ordered table of categories with
  their keyword sets, searched for the first category one of whose keywords occurs in
  the search string.
\<close>

definition spec_categories :: "(string \<times> string list) list" where
  "spec_categories =
     [(''Photographs'', [''photograph'', ''gelatin silver'', ''albumen print'', ''photo '']),
      (''Prints'', [''print'', ''engraving'', ''etching'', ''lithograph'', ''woodcut'',
                    ''screenprint'']),
      (''Drawings'', [''drawing'', ''graphite'', ''pencil'', ''pen and ink'', ''watercolor'',
                      ''watercolour'']),
      (''Paintings'', [''painting'', ''oil on canvas'', ''tempera'', ''acrylic'']),
      (''Sculpture'', [''sculpture'', ''bronze'', ''marble'', ''carved stone'']),
      (''Textiles'', [''textile'', ''tapestry'', ''silk'', ''cotton'', ''linen'', ''wool'']),
      (''Decorative arts'', [''ceramic'', ''porcelain'', ''earthenware'', ''stoneware'',
                             ''pottery'', ''glass'', ''furniture'', ''decorative art''])]"

definition is_substring :: "string \<Rightarrow> string \<Rightarrow> bool" where
  "is_substring k s = (\<exists>before after. s = before @ k @ after)"

fun spec_first_category :: "(string \<times> string list) list \<Rightarrow> string \<Rightarrow> string" where
  "spec_first_category [] s = ''Other''"
| "spec_first_category ((category, keywords) # rest) s =
     (if \<exists>k. k \<in> set keywords \<and> is_substring k s then category
      else spec_first_category rest s)"

section \<open>Tables\<close>

text \<open>
  The tables are what \<open>pd.read_csv\<close> delivers. A number is a float: a finite value,
  taken as an exact rational (rounding is not modelled), or one of the two infinities,
  which \<open>pd.read_csv\<close> and \<open>pd.to_numeric\<close> read from the text \<open>inf\<close>. A year cell is
  missing (\<open>NA\<close>), a number or a text. A country, classification or medium cell is a
  text or missing (\<open>None\<close>). A table lists the names of the columns it has; the fields
  of a row that belong to a column the table lacks are never read on a run that goes on.
\<close>

datatype number = Fin rat | PInf | NInf

datatype cell = NA | Num number | Str string

record object_record =
  origin_country_std :: "string option"
  creation_start_year_std :: cell
  creation_end_year_std :: cell
  classification_std :: "string option"
  medium_std :: "string option"

record master_table =
  master_columns :: "string list"
  master_rows :: "object_record list"

record flows_record =
  origin_country :: "string option"
  flows_region :: "string option"

record flows_table =
  flows_columns :: "string list"
  flows_rows :: "flows_record list"

abbreviation MASTER_COUNTRY_COL :: string where "MASTER_COUNTRY_COL \<equiv> ''origin_country_std''"
abbreviation MASTER_START_YEAR_COL :: string where
  "MASTER_START_YEAR_COL \<equiv> ''creation_start_year_std''"
abbreviation MASTER_END_YEAR_COL :: string where
  "MASTER_END_YEAR_COL \<equiv> ''creation_end_year_std''"
abbreviation MASTER_CLASS_COL :: string where "MASTER_CLASS_COL \<equiv> ''classification_std''"
abbreviation MASTER_MEDIUM_COL :: string where "MASTER_MEDIUM_COL \<equiv> ''medium_std''"
abbreviation FLOWS_COUNTRY_COL :: string where "FLOWS_COUNTRY_COL \<equiv> ''origin_country''"
abbreviation FLOWS_REGION_COL :: string where "FLOWS_REGION_COL \<equiv> ''region''"
abbreviation MIN_DECADE :: int where "MIN_DECADE \<equiv> 1400"
abbreviation MAX_DECADE :: int where "MAX_DECADE \<equiv> 2020"

datatype exn = AttributeError | ValueError | OverflowError

section \<open>The decade calculator\<close>

text \<open>
  \<open>to_numeric parse x\<close> is \<open>pd.to_numeric(x, errors="coerce")\<close> on one cell, with
  \<open>None\<close> for NaN. How pandas reads a number out of a text is the parameter \<open>parse\<close>;
  every result below holds for every such function. \<open>numeric_year\<close> is the value of
  \<open>year\<close> after the fallback to the end year. \<open>floor_tens year\<close> is
  \<open>np.floor(year / 10.0) * 10\<close>, which leaves an infinity as it is, and \<open>py_int\<close> is
  Python's \<open>int\<close> on a float: it cuts off the fraction, and raises \<open>OverflowError\<close> on
  an infinity. \<open>compute_decade\<close> returns \<open>Inr None\<close> for NaN, and \<open>Inl\<close> when line 108
  raises.
\<close>

fun to_numeric :: "(string \<Rightarrow> number option) \<Rightarrow> cell \<Rightarrow> number option" where
  "to_numeric parse NA = None"
| "to_numeric parse (Num y) = Some y"
| "to_numeric parse (Str s) = parse s"

definition numeric_year :: "(string \<Rightarrow> number option) \<Rightarrow> object_record \<Rightarrow> number option" where
  "numeric_year parse row =
     (let start = creation_start_year_std row;
          end_year = creation_end_year_std row;
          year = to_numeric parse start
      in if year = None then to_numeric parse end_year else year)"

fun floor_tens :: "number \<Rightarrow> number" where
  "floor_tens (Fin y) = Fin (of_int (\<lfloor>y / 10\<rfloor> * 10))"
| "floor_tens PInf = PInf"
| "floor_tens NInf = NInf"

fun py_int :: "number \<Rightarrow> exn + int" where
  "py_int (Fin y) = Inr (if 0 \<le> y then \<lfloor>y\<rfloor> else \<lceil>y\<rceil>)"
| "py_int PInf = Inl OverflowError"
| "py_int NInf = Inl OverflowError"

definition compute_decade ::
  "(string \<Rightarrow> number option) \<Rightarrow> object_record \<Rightarrow> exn + int option"
where
  "compute_decade parse row =
     (case numeric_year parse row of
        None \<Rightarrow> Inr None
      | Some year \<Rightarrow>
          (case py_int (floor_tens year) of
             Inl e \<Rightarrow> Inl e
           | Inr decade \<Rightarrow>
               if decade < MIN_DECADE \<or> decade > MAX_DECADE then Inr None
               else Inr (Some decade)))"

section \<open>The region mapping\<close>

text \<open>
  \<open>dropna\<close> keeps the rows with both a country and a region. \<open>groupby\<close> gives one
  group per country, in sorted order, holding that country's regions in row order.
  \<open>value_counts\<close> lists each value with the number of its occurrences, the larger
  counts first, and \<open>idxmax\<close> takes the first label that carries the largest count;
  on an empty series it raises. Among values of equal count the model keeps the order of
  first occurrence; pandas does not fix that order, and no result below depends on it.
\<close>

definition dropna :: "flows_record list \<Rightarrow> (string \<times> string) list" where
  "dropna rws =
     List.map_filter
       (\<lambda>r. case origin_country r of
               None \<Rightarrow> None
             | Some c \<Rightarrow> (case flows_region r of None \<Rightarrow> None | Some g \<Rightarrow> Some (c, g)))
       rws"

definition groupby :: "(string \<times> string) list \<Rightarrow> (string \<times> string list) list" where
  "groupby rws =
     map (\<lambda>c. (c, map snd (filter (\<lambda>r. fst r = c) rws))) (sort (remdups (map fst rws)))"

definition unique :: "'a list \<Rightarrow> 'a list" where
  "unique s = rev (remdups (rev s))"

definition value_counts :: "'a list \<Rightarrow> ('a \<times> nat) list" where
  "value_counts s = sort_key (\<lambda>vn. - int (snd vn)) (map (\<lambda>v. (v, count_list s v)) (unique s))"

fun idxmax_from :: "'a \<Rightarrow> nat \<Rightarrow> ('a \<times> nat) list \<Rightarrow> 'a" where
  "idxmax_from bv bn [] = bv"
| "idxmax_from bv bn ((v, n) # rest) =
     (if bn < n then idxmax_from v n rest else idxmax_from bv bn rest)"

fun idxmax :: "('a \<times> nat) list \<Rightarrow> exn + 'a" where
  "idxmax [] = Inl ValueError"
| "idxmax ((v, n) # rest) = Inr (idxmax_from v n rest)"

fun agg_groups :: "(string \<times> string list) list \<Rightarrow> exn + (string \<times> string) list" where
  "agg_groups [] = Inr []"
| "agg_groups ((c, s) # groups) =
     (case idxmax (value_counts s) of
        Inl e \<Rightarrow> Inl e
      | Inr g \<Rightarrow> (case agg_groups groups of Inl e \<Rightarrow> Inl e | Inr d \<Rightarrow> Inr ((c, g) # d)))"

text \<open>
  The dictionary \<open>country_to_region\<close> of a lookup table that has both columns; it is
  an association list with one entry per country.
\<close>

definition country_region :: "flows_table \<Rightarrow> exn + (string \<times> string) list" where
  "country_region flows_df = agg_groups (groupby (dropna (flows_rows flows_df)))"

text \<open>
  The specification's count for the majority vote: the number of lookup rows that have
  country \<open>c\<close> and region \<open>g\<close>. A row that lacks its country or its region is
  counted for no pair.
\<close>

definition occurrences :: "flows_record list \<Rightarrow> string \<Rightarrow> string \<Rightarrow> nat" where
  "occurrences rws c g =
     length (filter (\<lambda>r. origin_country r = Some c \<and> flows_region r = Some g) rws)"

section \<open>Derived records\<close>

text \<open>
  What \<open>astype(str)\<close> makes of a missing country depends on the pandas that runs the
  script, and the repository names no version: before version 3 the missing value
  becomes the text \<open>nan\<close> (\<open>NaAsText\<close>); from version 3 on the column keeps it as a
  missing value (\<open>NaKept\<close>), which \<open>str.strip\<close> and the comparison with the empty text
  leave alone. A country of the frame is therefore a text or missing.

  \<open>map_region\<close> is the region of one country text: the dictionary's value when the
  dictionary is not empty and has the country, and \<open>Unknown\<close> otherwise. A missing
  country is no key of the dictionary, so \<open>map\<close> gives it a missing region, which
  \<open>fillna\<close> turns into \<open>Unknown\<close>. \<open>derive\<close> computes the region, country and decade
  of the row at position \<open>i\<close>. \<open>apply_rows\<close> is \<open>df.apply(f, axis=1)\<close> followed by the
  removal of the rows without a decade: it stops at the first row on which \<open>f\<close> raises.
  \<open>prepare\<close> is the frame \<open>df\<close> after line 206; each row keeps its position in the
  master table as its index.
\<close>

datatype na_conversion = NaAsText | NaKept

record df_row =
  row_index :: nat
  df_region :: string
  df_country :: "string option"
  df_decade :: int

definition astype_str :: "na_conversion \<Rightarrow> string option \<Rightarrow> string option" where
  "astype_str na x =
     (case x of
        Some s \<Rightarrow> Some s
      | None \<Rightarrow> (case na of NaAsText \<Rightarrow> Some ''nan'' | NaKept \<Rightarrow> None))"

definition map_region :: "(string \<times> string) list \<Rightarrow> string \<Rightarrow> string" where
  "map_region country_to_region c =
     (if country_to_region \<noteq> []
      then (case map_of country_to_region c of None \<Rightarrow> ''Unknown'' | Some g \<Rightarrow> g)
      else ''Unknown'')"

definition derive ::
  "na_conversion \<Rightarrow> (string \<Rightarrow> number option) \<Rightarrow> (string \<times> string) list \<Rightarrow>
   nat \<times> object_record \<Rightarrow> exn + df_row option"
where
  "derive na parse country_to_region ir =
     (case ir of (i, row) \<Rightarrow>
        (let c = map_option strip (astype_str na (origin_country_std row));
             region = (case c of
                         None \<Rightarrow> ''Unknown''
                       | Some t \<Rightarrow> map_region country_to_region t);
             country = (if c = Some '''' then Some ''Unknown'' else c)
         in case compute_decade parse row of
              Inl e \<Rightarrow> Inl e
            | Inr None \<Rightarrow> Inr None
            | Inr (Some d) \<Rightarrow>
                Inr (Some \<lparr>row_index = i, df_region = region, df_country = country,
                           df_decade = d\<rparr>)))"

fun apply_rows :: "('a \<Rightarrow> exn + 'b option) \<Rightarrow> 'a list \<Rightarrow> exn + 'b list" where
  "apply_rows f [] = Inr []"
| "apply_rows f (x # xs) =
     (case f x of
        Inl e \<Rightarrow> Inl e
      | Inr d \<Rightarrow>
          (case apply_rows f xs of
             Inl e \<Rightarrow> Inl e
           | Inr ds \<Rightarrow> Inr (case d of None \<Rightarrow> ds | Some r \<Rightarrow> r # ds)))"

definition prepare ::
  "na_conversion \<Rightarrow> (string \<Rightarrow> number option) \<Rightarrow> (string \<times> string) list \<Rightarrow> master_table \<Rightarrow>
   exn + df_row list"
where
  "prepare na parse country_to_region master_df =
     apply_rows (derive na parse country_to_region) (enumerate 0 (master_rows master_df))"

section \<open>Medium grouping\<close>

text \<open>
  \<open>classification\<close> and \<open>medium_raw\<close> are the column of the master table when it has
  one, and the Python string \<open>""\<close> otherwise. \<open>reindex\<close> is a method of a series: it
  picks the values at the given index labels, with the fill value where the series has
  none. A Python string has no such attribute.
\<close>

datatype column = Series "string option list" | PyStr string

fun reindex :: "column \<Rightarrow> nat list \<Rightarrow> string \<Rightarrow> exn + string option list" where
  "reindex (Series vs) index fill_value =
     Inr (map (\<lambda>i. if i < length vs then vs ! i else Some fill_value) index)"
| "reindex (PyStr s) index fill_value = Inl AttributeError"

definition medium_grouping :: "master_table \<Rightarrow> df_row list \<Rightarrow> exn + string list" where
  "medium_grouping master_df df =
     (let classification =
            (if MASTER_CLASS_COL \<in> set (master_columns master_df)
             then Series (map classification_std (master_rows master_df)) else PyStr '''');
          medium_raw =
            (if MASTER_MEDIUM_COL \<in> set (master_columns master_df)
             then Series (map medium_std (master_rows master_df)) else PyStr '''')
      in case reindex classification (map row_index df) '''' of
           Inl e \<Rightarrow> Inl e
         | Inr cs \<Rightarrow>
             (case reindex medium_raw (map row_index df) '''' of
                Inl e \<Rightarrow> Inl e
              | Inr ms \<Rightarrow> Inr (map (\<lambda>cm. categorize_medium (fst cm) (snd cm)) (zip cs ms))))"

section \<open>Aggregation\<close>

text \<open>
  One output row per distinct key \<open>(region, country, decade, medium_group)\<close>, with the
  number of rows of \<open>df\<close> that have the key. The rows are in the sorted order of their
  keys, with a missing country (kept as a group of its own by \<open>dropna=False\<close>) after
  the texts; the order of the rows plays no part in any result below.
\<close>

record agg_row =
  region :: string
  country :: "string option"
  decade :: int
  medium_group :: string
  n_objects :: nat

type_synonym group_key = "string \<times> string option \<times> int \<times> string"

definition group_keys :: "df_row list \<Rightarrow> string list \<Rightarrow> group_key list" where
  "group_keys df groups =
     map (\<lambda>rg. (df_region (fst rg), df_country (fst rg), df_decade (fst rg), snd rg))
       (zip df groups)"

definition sort_position :: "group_key \<Rightarrow> string \<times> (bool \<times> string) \<times> int \<times> string" where
  "sort_position k =
     (case k of (r, c, d, g) \<Rightarrow>
        (r, (case c of None \<Rightarrow> (True, '''') | Some t \<Rightarrow> (False, t)), d, g))"

definition aggregate :: "group_key list \<Rightarrow> agg_row list" where
  "aggregate keys =
     map (\<lambda>k. case k of (r, c, d, g) \<Rightarrow>
            \<lparr>region = r, country = c, decade = d, medium_group = g,
             n_objects = count_list keys k\<rparr>)
       (sort_key sort_position (remdups keys))"

definition key_of :: "agg_row \<Rightarrow> group_key" where
  "key_of a = (region a, country a, decade a, medium_group a)"

section \<open>The run\<close>

text \<open>
  A session holds what the operator and the file system answer: the paths picked in
  the three file dialogs (empty when a dialog is cancelled), what \<open>pd.read_csv\<close>
  returns for the two inputs (\<open>None\<close> when it raises) and whether \<open>to_csv\<close> succeeds.
  A run yields the message boxes it showed, in order, and either an uncaught exception
  or the file it wrote, if any.
\<close>

datatype dialog = Info string | Warning string | Error string

record session =
  master_path :: string
  flows_path :: string
  master_csv :: "master_table option"
  flows_csv :: "flows_table option"
  out_path :: string
  to_csv_ok :: bool

type_synonym run = "dialog list \<times> (exn + (string \<times> agg_row list) option)"

definition after :: "dialog list \<Rightarrow> run \<Rightarrow> run" where
  "after ds r = (ds @ fst r, snd r)"

definition missing_master :: "master_table \<Rightarrow> string list" where
  "missing_master master_df =
     filter (\<lambda>col. col \<notin> set (master_columns master_df))
       [MASTER_COUNTRY_COL, MASTER_START_YEAR_COL, MASTER_END_YEAR_COL]"

definition region_mapping ::
  "flows_table option \<Rightarrow> dialog list \<times> (exn + (string \<times> string) list)"
where
  "region_mapping flows_df =
     (case flows_df of
        None \<Rightarrow> ([], Inr [])
      | Some t \<Rightarrow>
          if FLOWS_COUNTRY_COL \<notin> set (flows_columns t) \<or> FLOWS_REGION_COL \<notin> set (flows_columns t)
          then ([Warning ''Flows columns missing''], Inr [])
          else ([], country_region t))"

definition save :: "agg_row list \<Rightarrow> session \<Rightarrow> run" where
  "save grouped s =
     (if grouped = [] then ([Warning ''No data''], Inr None)
      else after [Info ''Step 3'']
        (if out_path s = '''' then ([Warning ''Cancelled''], Inr None)
         else if \<not> to_csv_ok s then ([Error ''Error''], Inr None)
         else ([Info ''Done''], Inr (Some (out_path s, grouped)))))"

definition transform ::
  "na_conversion \<Rightarrow> (string \<Rightarrow> number option) \<Rightarrow> master_table \<Rightarrow> flows_table option \<Rightarrow>
   session \<Rightarrow> run"
where
  "transform na parse master_df flows_df s =
     (case region_mapping flows_df of
        (ds, Inl e) \<Rightarrow> (ds, Inl e)
      | (ds, Inr country_to_region) \<Rightarrow>
          after ds
            (case prepare na parse country_to_region master_df of
               Inl e \<Rightarrow> ([], Inl e)
             | Inr df \<Rightarrow>
                 if df = [] then ([Warning ''No data''], Inr None)
                 else (case medium_grouping master_df df of
                         Inl e \<Rightarrow> ([], Inl e)
                       | Inr groups \<Rightarrow> save (aggregate (group_keys df groups)) s)))"

definition main :: "na_conversion \<Rightarrow> (string \<Rightarrow> number option) \<Rightarrow> session \<Rightarrow> run" where
  "main na parse s =
     after [Info ''Step 1'']
       (if master_path s = '''' then ([Warning ''Cancelled''], Inr None)
        else after [Info ''Step 2 (optional)'']
          (let use_flows = (flows_path s \<noteq> '''')
           in case master_csv s of
                None \<Rightarrow> ([Error ''Error''], Inr None)
              | Some master_df \<Rightarrow>
                  if use_flows \<and> flows_csv s = None then ([Error ''Error''], Inr None)
                  else (let flows_df = (if use_flows then flows_csv s else None)
                        in if missing_master master_df \<noteq> []
                           then ([Error ''Missing columns in master file''], Inr None)
                           else transform na parse master_df flows_df s)))"

section \<open>The key of one record\<close>

text \<open>
  Not functions of the source: \<open>decade_of\<close> is the decade that the calculator returns
  for a record, if it returns one, and \<open>record_key\<close> puts together what the run computes
  for one record of the master table, namely the key under which the record is counted,
  or \<open>None\<close> when the record has no decade. Lemma \<open>transform_by_record\<close> shows that a
  run on which the calculator does not raise groups exactly these keys.
\<close>

definition decade_of :: "(string \<Rightarrow> number option) \<Rightarrow> object_record \<Rightarrow> int option" where
  "decade_of parse row = (case compute_decade parse row of Inl e \<Rightarrow> None | Inr d \<Rightarrow> d)"

definition record_key ::
  "na_conversion \<Rightarrow> (string \<Rightarrow> number option) \<Rightarrow> (string \<times> string) list \<Rightarrow> object_record \<Rightarrow>
   group_key option"
where
  "record_key na parse country_to_region row =
     (let c = map_option strip (astype_str na (origin_country_std row))
      in case decade_of parse row of
           None \<Rightarrow> None
         | Some d \<Rightarrow>
             Some (case c of None \<Rightarrow> ''Unknown'' | Some t \<Rightarrow> map_region country_to_region t,
                   if c = Some '''' then Some ''Unknown'' else c, d,
                   categorize_medium (classification_std row) (medium_std row)))"

section \<open>Example tables\<close>

text \<open>
  The tables of the specification's examples: the lookup rows of France with the
  regions Europe, Europe and Asia, and the three records of its end-to-end example,
  followed by a record without a country whose start year is no number, a record with a
  blank country, a record from the year 1300 and a record without any year.
\<close>

definition example_flows :: flows_table where
  "example_flows =
     \<lparr>flows_columns = [''origin_country'', ''region''],
      flows_rows =
        [\<lparr>origin_country = Some ''France'', flows_region = Some ''Europe''\<rparr>,
         \<lparr>origin_country = Some ''France'', flows_region = Some ''Europe''\<rparr>,
         \<lparr>origin_country = Some ''France'', flows_region = Some ''Asia''\<rparr>]\<rparr>"

definition example_master :: master_table where
  "example_master =
     \<lparr>master_columns =
        [''origin_country_std'', ''creation_start_year_std'', ''creation_end_year_std'',
         ''classification_std'', ''medium_std''],
      master_rows =
        [\<lparr>origin_country_std = Some ''France'', creation_start_year_std = Num (Fin 1875),
          creation_end_year_std = NA, classification_std = Some ''Painting'',
          medium_std = Some ''oil on canvas''\<rparr>,
         \<lparr>origin_country_std = Some ''France'', creation_start_year_std = Str ''1876'',
          creation_end_year_std = NA, classification_std = Some ''Print'',
          medium_std = Some ''engraving''\<rparr>,
         \<lparr>origin_country_std = Some ''Japan'', creation_start_year_std = Num (Fin 1630),
          creation_end_year_std = NA, classification_std = Some '''',
          medium_std = Some ''porcelain''\<rparr>,
         \<lparr>origin_country_std = None, creation_start_year_std = Str ''about 1630'',
          creation_end_year_std = Num (Fin 1639), classification_std = None,
          medium_std = Some ''Porcelain''\<rparr>,
         \<lparr>origin_country_std = Some ''  '', creation_start_year_std = NA,
          creation_end_year_std = Num (Fin (4041 / 2)), classification_std = Some ''Sculpture'',
          medium_std = None\<rparr>,
         \<lparr>origin_country_std = Some ''Italy'', creation_start_year_std = Num (Fin 1300),
          creation_end_year_std = Num (Fin 1450), classification_std = Some ''Painting'',
          medium_std = Some ''tempera''\<rparr>,
         \<lparr>origin_country_std = Some ''Peru'', creation_start_year_std = Str ''undated'',
          creation_end_year_std = NA, classification_std = Some ''Textile'',
          medium_std = Some ''wool''\<rparr>]\<rparr>"

text \<open>
  A master table with the three required columns only, a lookup table whose country
  column has another name, and a record whose start year is infinite.
\<close>

definition example_required_only :: master_table where
  "example_required_only =
     \<lparr>master_columns =
        [''origin_country_std'', ''creation_start_year_std'', ''creation_end_year_std''],
      master_rows =
        [\<lparr>origin_country_std = Some ''France'', creation_start_year_std = Num (Fin 1875),
          creation_end_year_std = NA, classification_std = None, medium_std = None\<rparr>]\<rparr>"

definition example_flows_renamed :: flows_table where
  "example_flows_renamed = example_flows\<lparr>flows_columns := [''country'', ''region'']\<rparr>"

definition example_infinite_year :: object_record where
  "example_infinite_year =
     \<lparr>origin_country_std = Some ''France'', creation_start_year_std = Num PInf,
      creation_end_year_std = Num (Fin 1875), classification_std = Some ''Painting'',
      medium_std = Some ''oil on canvas''\<rparr>"

definition example_parse :: "string \<Rightarrow> number option" where
  "example_parse s = (if s = ''1876'' then Some (Fin 1876) else None)"

definition example_session :: session where
  "example_session =
     \<lparr>master_path = ''objects.csv'', flows_path = ''flows.csv'',
      master_csv = Some example_master, flows_csv = Some example_flows,
      out_path = ''counts.csv'', to_csv_ok = True\<rparr>"

section \<open>Substrings and the classifier\<close>

lemma contains_iff: "contains s k = is_substring k s"
proof (induction s)
  case Nil
  show ?case by (simp add: is_substring_def)
next
  case (Cons c cs)
  have "is_substring k (c # cs) \<longleftrightarrow> prefix k (c # cs) \<or> is_substring k cs"
  proof
    assume "is_substring k (c # cs)"
    then obtain b a where e: "c # cs = b @ k @ a" by (auto simp: is_substring_def)
    show "prefix k (c # cs) \<or> is_substring k cs"
    proof (cases b)
      case Nil
      with e show ?thesis by (simp add: prefix_def)
    next
      case (Cons x b')
      with e have "cs = b' @ k @ a" by simp
      then show ?thesis by (auto simp: is_substring_def)
    qed
  next
    assume "prefix k (c # cs) \<or> is_substring k cs"
    then show "is_substring k (c # cs)"
    proof
      assume "prefix k (c # cs)"
      then obtain a where "c # cs = [] @ k @ a" by (auto simp: prefix_def)
      then show ?thesis unfolding is_substring_def by blast
    next
      assume "is_substring k cs"
      then obtain b a where "cs = b @ k @ a" by (auto simp: is_substring_def)
      then have "c # cs = (c # b) @ k @ a" by simp
      then show ?thesis unfolding is_substring_def by blast
    qed
  qed
  with Cons show ?case by simp
qed

lemma list_ex_contains: "list_ex (contains s) ks = (\<exists>k. k \<in> set ks \<and> is_substring k s)"
  by (auto simp: list_ex_iff contains_iff)

lemma categorize_medium_spec:
  "categorize_medium (Some c) (Some m) =
     spec_first_category spec_categories (lower c @ '' '' @ lower m)"
  unfolding categorize_medium_def spec_categories_def Let_def str_or_empty_def option.case
    spec_first_category.simps list_ex_contains
  by (rule refl)

lemma lower_example: "lower ''Bronze PRINT [a-z], 0:9'' = ''bronze print [a-z], 0:9''"
  by code_simp

lemma strip_example: "strip ''  New  Zealand  '' = ''New  Zealand''"
  by code_simp

text \<open>
  C1. On any classification text and medium text the classifier lower-cases both, joins
  them with one space and returns the first category, in the order Photographs, Prints,
  Drawings, Paintings, Sculpture, Textiles, Decorative arts, that has a keyword
  occurring as a substring of the joined text, and \<open>Other\<close> when no category has one.
  The texts made of the keyword \<open>bronze\<close> alone are classified as Sculpture, and the
  texts made of the two keywords \<open>print\<close> and \<open>bronze\<close> as Prints.
\<close>

theorem categorize_medium_first_match:
  "categorize_medium (Some classification) (Some medium) =
     spec_first_category spec_categories (lower classification @ '' '' @ lower medium)
   \<and> categorize_medium (Some '''') (Some ''bronze'') = ''Sculpture''
   \<and> categorize_medium (Some ''Bronze'') (Some '''') = ''Sculpture''
   \<and> categorize_medium (Some ''print'') (Some ''bronze'') = ''Prints''
   \<and> categorize_medium (Some '''') (Some ''Bronze sculpture print'') = ''Prints''
   \<and> categorize_medium (Some ''watermark'') (Some ''paper'') = ''Other''"
proof -
  have 1: "categorize_medium (Some '''') (Some ''bronze'') = ''Sculpture''" by code_simp
  have 2: "categorize_medium (Some ''Bronze'') (Some '''') = ''Sculpture''" by code_simp
  have 3: "categorize_medium (Some ''print'') (Some ''bronze'') = ''Prints''" by code_simp
  have 4: "categorize_medium (Some '''') (Some ''Bronze sculpture print'') = ''Prints''"
    by code_simp
  have 5: "categorize_medium (Some ''watermark'') (Some ''paper'') = ''Other''" by code_simp
  from categorize_medium_spec 1 2 3 4 5 show ?thesis by blast
qed

section \<open>The region mapping is a majority vote\<close>

lemma idxmax_from_max:
  "\<exists>m. (idxmax_from bv bn rest, m) \<in> set ((bv, bn) # rest) \<and>
       (\<forall>vn \<in> set ((bv, bn) # rest). snd vn \<le> m)"
proof (induction rest arbitrary: bv bn)
  case Nil
  show ?case by simp
next
  case (Cons a rest)
  obtain v n where a: "a = (v, n)" by (cases a)
  show ?case
  proof (cases "bn < n")
    case True
    from Cons.IH [of v n] obtain m where
      m: "(idxmax_from v n rest, m) \<in> set ((v, n) # rest)"
         "\<forall>vn \<in> set ((v, n) # rest). snd vn \<le> m" by blast
    from m(2) have "n \<le> m" by simp
    with True have "bn \<le> m" by simp
    with m True a show ?thesis by (intro exI [of _ m]) auto
  next
    case False
    from Cons.IH [of bv bn] obtain m where
      m: "(idxmax_from bv bn rest, m) \<in> set ((bv, bn) # rest)"
         "\<forall>vn \<in> set ((bv, bn) # rest). snd vn \<le> m" by blast
    from m(2) have "bn \<le> m" by simp
    with False have "n \<le> m" by simp
    with m False a show ?thesis by (intro exI [of _ m]) auto
  qed
qed

lemma set_value_counts: "set (value_counts s) = (\<lambda>v. (v, count_list s v)) ` set s"
  by (simp add: value_counts_def unique_def)

lemma idxmax_value_counts:
  assumes "s \<noteq> []"
  shows "\<exists>g. idxmax (value_counts s) = Inr g \<and> g \<in> set s \<and>
             (\<forall>v. count_list s v \<le> count_list s g)"
proof -
  from assms have "set (value_counts s) \<noteq> {}" by (simp add: set_value_counts)
  then obtain v n rest where vc: "value_counts s = (v, n) # rest"
    by (cases "value_counts s") auto
  from idxmax_from_max [of v n rest] obtain m where
    m: "(idxmax_from v n rest, m) \<in> set (value_counts s)"
       "\<forall>vn \<in> set (value_counts s). snd vn \<le> m" by (auto simp: vc)
  let ?g = "idxmax_from v n rest"
  from m(1) have g: "?g \<in> set s" "m = count_list s ?g" by (auto simp: set_value_counts)
  have "count_list s w \<le> count_list s ?g" for w
  proof (cases "w \<in> set s")
    case True
    then have "(w, count_list s w) \<in> set (value_counts s)" by (simp add: set_value_counts)
    with m(2) g(2) show ?thesis by fastforce
  next
    case False
    then show ?thesis by simp
  qed
  with g(1) vc show ?thesis by simp
qed

lemma map_of_agg_groups:
  "agg_groups gs = Inr d \<Longrightarrow>
   map_of d c = (case map_of gs c of None \<Rightarrow> None
                 | Some s \<Rightarrow> (case idxmax (value_counts s) of Inl e \<Rightarrow> None | Inr g \<Rightarrow> Some g))"
  by (induction gs arbitrary: d) (auto split: sum.splits)

lemma agg_groups_total:
  "\<forall>cs \<in> set gs. snd cs \<noteq> [] \<Longrightarrow> \<exists>d. agg_groups gs = Inr d \<and> (d = [] \<longleftrightarrow> gs = [])"
proof (induction gs)
  case Nil
  show ?case by simp
next
  case (Cons a gs)
  obtain c s where a: "a = (c, s)" by (cases a)
  with Cons.prems have "s \<noteq> []" by simp
  from idxmax_value_counts [OF this] obtain g where "idxmax (value_counts s) = Inr g" by blast
  moreover from Cons obtain d where "agg_groups gs = Inr d" by auto
  ultimately show ?case by (simp add: a)
qed

lemma map_of_groupby:
  "map_of (groupby rws) c =
     (if c \<in> fst ` set rws then Some (map snd (filter (\<lambda>r. fst r = c) rws)) else None)"
proof -
  have "map_of (map (\<lambda>c. (c, f c)) ks) c = (if c \<in> set ks then Some (f c) else None)"
    for f :: "string \<Rightarrow> string list" and ks
    by (induction ks) auto
  then show ?thesis by (simp add: groupby_def)
qed

lemma groupby_nonempty: "\<forall>cs \<in> set (groupby rws). snd cs \<noteq> []"
  by (auto simp: groupby_def filter_empty_conv)

lemma count_list_group:
  "count_list (map snd (filter (\<lambda>r. fst r = c) rws)) g = count_list rws (c, g)"
  by (induction rws) auto

lemma set_dropna:
  "set (dropna rws) = {(c, g). \<exists>r \<in> set rws. origin_country r = Some c \<and> flows_region r = Some g}"
  by (induction rws) (auto simp: dropna_def map_filter_simps split: option.splits)

lemma count_list_dropna:
  "count_list (dropna rws) (c, g) =
     length (filter (\<lambda>r. origin_country r = Some c \<and> flows_region r = Some g) rws)"
  by (induction rws) (auto simp: dropna_def map_filter_simps split: option.splits)


lemma country_region_lookup:
  "\<exists>dict. country_region t = Inr dict \<and> (dict = [] \<longleftrightarrow> dropna (flows_rows t) = []) \<and>
     (\<forall>c. if \<exists>g. 0 < occurrences (flows_rows t) c g
          then \<exists>g. map_of dict c = Some g \<and> 0 < occurrences (flows_rows t) c g \<and>
                   (\<forall>g'. occurrences (flows_rows t) c g' \<le> occurrences (flows_rows t) c g)
          else map_of dict c = None)"
proof -
  let ?clean = "dropna (flows_rows t)"
  from agg_groups_total [OF groupby_nonempty, of ?clean] obtain dict where
    d: "agg_groups (groupby ?clean) = Inr dict" "dict = [] \<longleftrightarrow> groupby ?clean = []" by blast
  have occ: "occurrences (flows_rows t) c g = count_list ?clean (c, g)" for c g
    by (simp add: occurrences_def count_list_dropna)
  have pos: "0 < occurrences (flows_rows t) c g \<longleftrightarrow> (c, g) \<in> set ?clean" for c g
    by (simp add: occ count_list_0_iff zero_less_iff_neq_zero)
  have keys: "(\<exists>g. 0 < occurrences (flows_rows t) c g) \<longleftrightarrow> c \<in> fst ` set ?clean" for c
    by (force simp: pos)
  have "map_of dict c = None" if "\<not> (\<exists>g. 0 < occurrences (flows_rows t) c g)" for c
    using that by (simp add: map_of_agg_groups [OF d(1)] map_of_groupby keys)
  moreover have "\<exists>g. map_of dict c = Some g \<and> 0 < occurrences (flows_rows t) c g \<and>
        (\<forall>g'. occurrences (flows_rows t) c g' \<le> occurrences (flows_rows t) c g)"
    if c: "\<exists>g. 0 < occurrences (flows_rows t) c g" for c
  proof -
    let ?s = "map snd (filter (\<lambda>r. fst r = c) ?clean)"
    from c have "c \<in> fst ` set ?clean" by (simp add: keys)
    then have m: "map_of (groupby ?clean) c = Some ?s" and ne: "?s \<noteq> []"
      by (auto simp: map_of_groupby filter_empty_conv)
    from idxmax_value_counts [OF ne] obtain g where
      g: "idxmax (value_counts ?s) = Inr g" "g \<in> set ?s"
         "\<forall>v. count_list ?s v \<le> count_list ?s g" by blast
    from g(1) m have "map_of dict c = Some g" by (simp add: map_of_agg_groups [OF d(1)])
    moreover have "0 < occurrences (flows_rows t) c g"
    proof -
      from g(2) count_list_0_iff [of ?s g] have "count_list ?s g \<noteq> 0" by blast
      then show ?thesis by (simp add: occ count_list_group)
    qed
    moreover from g(3) have "\<forall>g'. occurrences (flows_rows t) c g' \<le> occurrences (flows_rows t) c g"
      by (simp add: occ count_list_group)
    ultimately show ?thesis by blast
  qed
  moreover have "groupby ?clean = [] \<longleftrightarrow> ?clean = []"
  proof -
    have "sort ks = [] \<longleftrightarrow> ks = []" for ks :: "string list"
      by (metis length_0_conv length_sort)
    then show ?thesis by (simp add: groupby_def)
  qed
  ultimately show ?thesis using d by (intro exI [of _ dict]) (simp add: country_region_def)
qed

lemma example_flows_dict:
  "region_mapping (Some example_flows) = ([], Inr [(''France'', ''Europe'')])"
  unfolding example_flows_def by code_simp

text \<open>
  C4. For a lookup table that has both expected columns, the region mapping is built
  without a warning and without an exception. Rows that lack their country or their
  region count for nothing. A country that has a counted row is mapped to a region
  that occurs in its rows and whose number of occurrences no other region of the
  country exceeds; a country without a counted row is not in the mapping and resolves
  to \<open>Unknown\<close>. Ties are not decided by the statement.
\<close>

theorem region_mapping_majority:
  assumes "FLOWS_COUNTRY_COL \<in> set (flows_columns t)" and "FLOWS_REGION_COL \<in> set (flows_columns t)"
  shows "\<exists>dict. region_mapping (Some t) = ([], Inr dict) \<and>
     (\<forall>c g. 0 < occurrences (flows_rows t) c g \<longrightarrow>
        map_of dict c = Some (map_region dict c) \<and>
        0 < occurrences (flows_rows t) c (map_region dict c) \<and>
        (\<forall>g'. occurrences (flows_rows t) c g'
                 \<le> occurrences (flows_rows t) c (map_region dict c))) \<and>
     (\<forall>c. (\<forall>g. occurrences (flows_rows t) c g = 0) \<longrightarrow>
        map_of dict c = None \<and> map_region dict c = ''Unknown'')"
proof -
  from country_region_lookup [of t] obtain dict where
    d: "country_region t = Inr dict"
    and l: "\<And>c. if \<exists>g. 0 < occurrences (flows_rows t) c g
          then \<exists>g. map_of dict c = Some g \<and> 0 < occurrences (flows_rows t) c g \<and>
                   (\<forall>g'. occurrences (flows_rows t) c g' \<le> occurrences (flows_rows t) c g)
          else map_of dict c = None" by blast
  have voted: "map_of dict c = Some (map_region dict c) \<and>
        0 < occurrences (flows_rows t) c (map_region dict c) \<and>
        (\<forall>g'. occurrences (flows_rows t) c g'
                 \<le> occurrences (flows_rows t) c (map_region dict c))"
    if "0 < occurrences (flows_rows t) c g" for c g
  proof -
    from that have "\<exists>g. 0 < occurrences (flows_rows t) c g" by blast
    with l [of c] obtain g where g: "map_of dict c = Some g" "0 < occurrences (flows_rows t) c g"
       "\<forall>g'. occurrences (flows_rows t) c g' \<le> occurrences (flows_rows t) c g" by auto
    from g(1) have "dict \<noteq> []" by auto
    with g(1) have "map_region dict c = g" by (simp add: map_region_def)
    with g show ?thesis by simp
  qed
  have unknown: "map_of dict c = None \<and> map_region dict c = ''Unknown''"
    if "\<forall>g. occurrences (flows_rows t) c g = 0" for c
  proof -
    from that have "\<not> (\<exists>g. 0 < occurrences (flows_rows t) c g)" by simp
    with l [of c] have "map_of dict c = None" by simp
    then show ?thesis by (simp add: map_region_def)
  qed
  from d assms have "region_mapping (Some t) = ([], Inr dict)"
    by (simp add: region_mapping_def)
  with voted unknown show ?thesis by blast
qed


theorem region_mapping_majority_witness:
  "FLOWS_COUNTRY_COL \<in> set (flows_columns example_flows) \<and> FLOWS_REGION_COL \<in> set (flows_columns example_flows) \<and>
   0 < occurrences (flows_rows example_flows) ''France'' ''Asia'' \<and>
   map_region [(''France'', ''Europe'')] ''France'' = ''Europe'' \<and>
   occurrences (flows_rows example_flows) ''France'' ''Asia'' \<le> occurrences (flows_rows example_flows) ''France'' ''Europe'' \<and>
   (\<forall>g. occurrences (flows_rows example_flows) ''Japan'' g = 0) \<and>
   map_region [(''France'', ''Europe'')] ''Japan'' = ''Unknown''"
proof -
  have h1: "FLOWS_COUNTRY_COL \<in> set (flows_columns example_flows)" by (simp add: example_flows_def)
  have h2: "FLOWS_REGION_COL \<in> set (flows_columns example_flows)" by (simp add: example_flows_def)
  have o: "0 < occurrences (flows_rows example_flows) ''France'' ''Asia''"
    by (simp add: example_flows_def occurrences_def)
  have j: "\<forall>g. occurrences (flows_rows example_flows) ''Japan'' g = 0"
    by (simp add: example_flows_def occurrences_def)
  from region_mapping_majority [OF h1 h2] example_flows_dict
  have voted: "\<forall>c g. 0 < occurrences (flows_rows example_flows) c g \<longrightarrow>
        map_of [(''France'', ''Europe'')] c = Some (map_region [(''France'', ''Europe'')] c) \<and>
        0 < occurrences (flows_rows example_flows) c (map_region [(''France'', ''Europe'')] c) \<and>
        (\<forall>g'. occurrences (flows_rows example_flows) c g'
                 \<le> occurrences (flows_rows example_flows) c (map_region [(''France'', ''Europe'')] c))"
    and unknown: "\<forall>c. (\<forall>g. occurrences (flows_rows example_flows) c g = 0) \<longrightarrow>
        map_of [(''France'', ''Europe'')] c = None \<and> map_region [(''France'', ''Europe'')] c = ''Unknown''"
    by simp_all
  from voted o have
    f: "map_of [(''France'', ''Europe'')] ''France'' = Some (map_region [(''France'', ''Europe'')] ''France'')"
    and m: "\<forall>g'. occurrences (flows_rows example_flows) ''France'' g'
         \<le> occurrences (flows_rows example_flows) ''France'' (map_region [(''France'', ''Europe'')] ''France'')"
    by blast+
  from f have e: "map_region [(''France'', ''Europe'')] ''France'' = ''Europe''" by simp
  from unknown j have u: "map_region [(''France'', ''Europe'')] ''Japan'' = ''Unknown''" by blast
  from m e have "occurrences (flows_rows example_flows) ''France'' ''Asia''
      \<le> occurrences (flows_rows example_flows) ''France'' ''Europe''" by simp
  with h1 h2 o e j u show ?thesis by blast
qed

section \<open>The run, record by record\<close>

lemma py_int_of_int: "py_int (Fin (of_int k)) = Inr k"
  by simp

lemma py_int_floor_tens: "py_int (floor_tens (Fin y)) = Inr (\<lfloor>y / 10\<rfloor> * 10)"
  by (simp only: floor_tens.simps py_int_of_int)

lemma compute_decade_finite:
  "numeric_year parse row = Some (Fin Y) \<Longrightarrow>
   compute_decade parse row =
     Inr (if \<lfloor>Y / 10\<rfloor> * 10 < 1400 \<or> 2020 < \<lfloor>Y / 10\<rfloor> * 10 then None
          else Some (\<lfloor>Y / 10\<rfloor> * 10))"
  by (simp add: compute_decade_def py_int_floor_tens del: floor_tens.simps py_int.simps)

lemma compute_decade_infinite:
  "numeric_year parse row = Some PInf \<or> numeric_year parse row = Some NInf \<Longrightarrow>
   compute_decade parse row = Inl OverflowError"
  by (auto simp: compute_decade_def)

lemma compute_decade_no_year: "numeric_year parse row = None \<Longrightarrow> compute_decade parse row = Inr None"
  by (simp add: compute_decade_def)

lemma compute_decade_raises: "compute_decade parse row = Inl e \<Longrightarrow> e = OverflowError"
proof -
  assume a: "compute_decade parse row = Inl e"
  show "e = OverflowError"
  proof (cases "numeric_year parse row")
    case None
    with a show ?thesis by (simp add: compute_decade_no_year)
  next
    case (Some y)
    show ?thesis
    proof (cases y)
      case (Fin q)
      with Some a show ?thesis by (simp add: compute_decade_finite)
    next
      case PInf
      with Some a compute_decade_infinite [of parse row] show ?thesis by simp
    next
      case NInf
      with Some a compute_decade_infinite [of parse row] show ?thesis by simp
    qed
  qed
qed

lemma decade_of_Some: "decade_of parse row = Some d \<longleftrightarrow> compute_decade parse row = Inr (Some d)"
  by (auto simp: decade_of_def split: sum.splits)

lemma derive_quiet:
  "(case derive na parse dict ir of Inl e \<Rightarrow> None | Inr d \<Rightarrow> d) = None \<longleftrightarrow>
     decade_of parse (snd ir) = None"
  by (cases ir) (auto simp: derive_def decade_of_def Let_def split: sum.splits option.splits)

lemma derive_isl: "isl (derive na parse dict ir) \<longleftrightarrow> isl (compute_decade parse (snd ir))"
  by (cases ir) (auto simp: derive_def Let_def split: sum.splits option.splits)

lemma derive_Inl: "derive na parse dict ir = Inl e \<Longrightarrow> e = OverflowError"
  by (cases ir) (auto simp: derive_def Let_def split: sum.splits option.splits
      dest: compute_decade_raises)

lemma derive_Some:
  "decade_of parse row = Some d \<Longrightarrow>
   derive na parse dict (i, row) =
     Inr (Some \<lparr>row_index = i,
           df_region = (case map_option strip (astype_str na (origin_country_std row)) of
                          None \<Rightarrow> ''Unknown'' | Some t \<Rightarrow> map_region dict t),
           df_country = (let c = map_option strip (astype_str na (origin_country_std row))
                         in if c = Some [] then Some ''Unknown'' else c),
           df_decade = d\<rparr>)"
  by (simp add: derive_def Let_def decade_of_Some)

lemma record_key_None: "record_key na parse dict row = None \<longleftrightarrow> decade_of parse row = None"
  by (simp add: record_key_def Let_def split: option.splits)

lemma apply_rows_quiet:
  "\<forall>x \<in> set xs. \<not> isl (f x) \<Longrightarrow>
   apply_rows f xs = Inr (List.map_filter (\<lambda>x. case f x of Inl e \<Rightarrow> None | Inr d \<Rightarrow> d) xs)"
  by (induction xs) (auto simp: map_filter_simps split: sum.splits option.splits)

lemma apply_rows_Inl: "apply_rows f xs = Inl e \<Longrightarrow> \<exists>x \<in> set xs. f x = Inl e"
  by (induction xs) (auto split: sum.splits)

lemma apply_rows_Inr: "apply_rows f xs = Inr ys \<Longrightarrow> \<forall>x \<in> set xs. \<not> isl (f x)"
  by (induction xs arbitrary: ys) (auto split: sum.splits)

lemma apply_rows_raises: "\<exists>x \<in> set xs. isl (f x) \<Longrightarrow> isl (apply_rows f xs)"
  using apply_rows_Inr [of f xs] by (cases "apply_rows f xs") auto

lemma enumerate_filter_snd:
  "map snd (filter (\<lambda>ir. P (snd ir)) (enumerate n xs)) = filter P xs"
  by (induction xs arbitrary: n) simp_all

lemma enumerate_snd: "snd ` set (enumerate n xs) = set xs"
  by (induction xs arbitrary: n) auto

lemma prepare_raises:
  assumes "\<exists>r \<in> set (master_rows m). isl (compute_decade parse r)"
  shows "prepare na parse dict m = Inl OverflowError"
proof -
  from assms have "\<exists>ir \<in> set (enumerate 0 (master_rows m)). isl (derive na parse dict ir)"
    using enumerate_snd [of 0 "master_rows m"] by (force simp: derive_isl)
  from apply_rows_raises [OF this] obtain e where
    e: "prepare na parse dict m = Inl e" by (auto simp: prepare_def isl_def)
  then have "\<exists>ir. derive na parse dict ir = Inl e"
    using apply_rows_Inl [of "derive na parse dict" "enumerate 0 (master_rows m)" e]
    by (auto simp: prepare_def)
  with e show ?thesis by (auto dest: derive_Inl)
qed

lemma prepare_eq:
  assumes "\<forall>r \<in> set (master_rows m). \<not> isl (compute_decade parse r)"
  shows "prepare na parse dict m =
     Inr (map (\<lambda>ir. the (case derive na parse dict ir of Inl e \<Rightarrow> None | Inr d \<Rightarrow> d))
       (filter (\<lambda>ir. decade_of parse (snd ir) \<noteq> None) (enumerate 0 (master_rows m))))"
proof -
  from assms have "\<forall>ir \<in> set (enumerate 0 (master_rows m)). \<not> isl (derive na parse dict ir)"
    using enumerate_snd [of 0 "master_rows m"] by (force simp: derive_isl)
  from apply_rows_quiet [OF this] show ?thesis
    by (simp add: prepare_def map_filter_def derive_quiet comp_def)
qed

lemma prepare_Inr:
  assumes "prepare na parse dict m = Inr df"
  shows "\<forall>r \<in> set (master_rows m). \<not> isl (compute_decade parse r)"
proof (rule ccontr)
  assume "\<not> (\<forall>r \<in> set (master_rows m). \<not> isl (compute_decade parse r))"
  then have "\<exists>r \<in> set (master_rows m). isl (compute_decade parse r)" by blast
  from prepare_raises [OF this, of na dict] assms show False by simp
qed

lemma reindex_column:
  assumes "\<forall>ir \<in> set F. fst ir < length rws \<and> rws ! fst ir = snd ir"
  shows "reindex (Series (map f rws)) (map fst F) fill = Inr (map (\<lambda>ir. f (snd ir)) F)"
  using assms by (simp add: comp_def)

lemma group_keys_prepare:
  assumes "MASTER_CLASS_COL \<in> set (master_columns m)" and "MASTER_MEDIUM_COL \<in> set (master_columns m)"
    and "prepare na parse dict m = Inr df"
  shows "\<exists>groups. medium_grouping m df = Inr groups \<and>
           group_keys df groups = List.map_filter (record_key na parse dict) (master_rows m)"
proof -
  let ?rows = "master_rows m"
  let ?F = "filter (\<lambda>ir. decade_of parse (snd ir) \<noteq> None) (enumerate 0 ?rows)"
  let ?q = "\<lambda>ir. the (case derive na parse dict ir of Inl e \<Rightarrow> None | Inr d \<Rightarrow> d)"
  let ?cat = "\<lambda>ir. categorize_medium (classification_std (snd ir)) (medium_std (snd ir))"
  from prepare_eq [OF prepare_Inr [OF assms(3)], of na dict] assms(3)
  have df: "df = map ?q ?F" by simp
  have F: "\<forall>ir \<in> set ?F. fst ir < length ?rows \<and> ?rows ! fst ir = snd ir"
    by (auto simp: in_set_enumerate_eq)
  have idx: "map row_index df = map fst ?F"
    unfolding df map_map by (rule map_cong [OF refl]) (auto simp: derive_Some)
  have cs: "reindex (Series (map classification_std ?rows)) (map row_index df) []
      = Inr (map (\<lambda>ir. classification_std (snd ir)) ?F)"
    unfolding idx by (rule reindex_column [OF F])
  have ms: "reindex (Series (map medium_std ?rows)) (map row_index df) []
      = Inr (map (\<lambda>ir. medium_std (snd ir)) ?F)"
    unfolding idx by (rule reindex_column [OF F])
  have g: "medium_grouping m df = Inr (map ?cat ?F)"
    using assms(1,2) unfolding medium_grouping_def Let_def
    by (simp add: cs ms zip_map_map zip_same_conv_map comp_def del: reindex.simps)
  have "group_keys df (map ?cat ?F) = map (\<lambda>ir. the (record_key na parse dict (snd ir))) ?F"
    unfolding group_keys_def df zip_map_map zip_same_conv_map map_map
    by (rule map_cong [OF refl]) (auto simp: derive_Some record_key_def Let_def)
  also have "\<dots> = map (\<lambda>r. the (record_key na parse dict r)) (map snd ?F)"
    by (simp add: comp_def)
  also have "map snd ?F = filter (\<lambda>r. decade_of parse r \<noteq> None) ?rows"
    by (rule enumerate_filter_snd)
  also have "map (\<lambda>r. the (record_key na parse dict r)) \<dots> =
      List.map_filter (record_key na parse dict) ?rows"
    by (simp add: map_filter_def record_key_None comp_def)
  finally show ?thesis using g by blast
qed

lemma medium_grouping_raises:
  assumes "MASTER_CLASS_COL \<notin> set (master_columns m) \<or> MASTER_MEDIUM_COL \<notin> set (master_columns m)"
  shows "medium_grouping m df = Inl AttributeError"
  using assms by (auto simp: medium_grouping_def Let_def split: sum.splits)

lemma map_filter_empty:
  "List.map_filter (record_key na parse dict) rws = [] \<longleftrightarrow>
     filter (\<lambda>r. decade_of parse r \<noteq> None) rws = []"
  by (simp add: map_filter_def record_key_None)

lemma length_prepare:
  assumes "prepare na parse dict m = Inr df"
  shows "length df = length (filter (\<lambda>r. decade_of parse r \<noteq> None) (master_rows m))"
proof -
  from prepare_eq [OF prepare_Inr [OF assms], of na dict] assms
  have "length df = length (map snd (filter (\<lambda>ir. decade_of parse (snd ir) \<noteq> None)
        (enumerate 0 (master_rows m))))"
    by auto
  also have "\<dots> = length (filter (\<lambda>r. decade_of parse r \<noteq> None) (master_rows m))"
    using enumerate_filter_snd [of "\<lambda>r. decade_of parse r \<noteq> None" 0 "master_rows m"]
    by simp
  finally show ?thesis .
qed

lemma prepare_empty:
  assumes "prepare na parse dict m = Inr df"
  shows "df = [] \<longleftrightarrow> filter (\<lambda>r. decade_of parse r \<noteq> None) (master_rows m) = []"
  using length_prepare [OF assms] by (metis length_0_conv)

lemma transform_by_record:
  assumes "region_mapping flows_df = (ds, Inr dict)"
  shows "transform na parse m flows_df s =
     after ds
       (if list_ex (\<lambda>r. isl (compute_decade parse r)) (master_rows m)
        then ([], Inl OverflowError)
        else (let keys = List.map_filter (record_key na parse dict) (master_rows m)
              in if keys = [] then ([Warning ''No data''], Inr None)
                 else if MASTER_CLASS_COL \<notin> set (master_columns m) \<or>
                         MASTER_MEDIUM_COL \<notin> set (master_columns m)
                 then ([], Inl AttributeError)
                 else save (aggregate keys) s))"
proof (cases "\<exists>r \<in> set (master_rows m). isl (compute_decade parse r)")
  case True
  from prepare_raises [OF True, of na dict] True assms show ?thesis
    by (simp add: transform_def list_ex_iff)
next
  case False
  then have q: "\<forall>r \<in> set (master_rows m). \<not> isl (compute_decade parse r)" by blast
  from prepare_eq [OF q, of na dict] obtain df where
    df: "prepare na parse dict m = Inr df" by blast
  note e = prepare_empty [OF df]
  show ?thesis
  proof (cases "MASTER_CLASS_COL \<notin> set (master_columns m) \<or>
      MASTER_MEDIUM_COL \<notin> set (master_columns m)")
    case True
    from medium_grouping_raises [OF True] True False assms df e show ?thesis
      by (simp add: transform_def Let_def map_filter_empty list_ex_iff)
  next
    case c: False
    then have "MASTER_CLASS_COL \<in> set (master_columns m)"
      "MASTER_MEDIUM_COL \<in> set (master_columns m)" by simp_all
    from group_keys_prepare [OF this df] obtain groups where
      "medium_grouping m df = Inr groups"
      "group_keys df groups = List.map_filter (record_key na parse dict) (master_rows m)"
      by blast
    with c False assms df e show ?thesis
      by (simp add: transform_def Let_def map_filter_empty list_ex_iff)
  qed
qed

lemma sum_aggregate: "sum_list (map n_objects (aggregate keys)) = length keys"
proof -
  have "map n_objects (aggregate keys) =
      map (count_list keys) (sort_key sort_position (remdups keys))"
    by (simp add: aggregate_def comp_def split_def)
  moreover have "distinct (sort_key sort_position (remdups keys))" by simp
  ultimately have "sum_list (map n_objects (aggregate keys)) =
      sum (count_list keys) (set (sort_key sort_position (remdups keys)))"
    by (simp only: sum_list_distinct_conv_sum_set)
  also have "\<dots> = length keys" by (simp add: sum_count_set)
  finally show ?thesis .
qed

lemma keys_aggregate: "map key_of (aggregate keys) = sort_key sort_position (remdups keys)"
  by (simp add: aggregate_def key_of_def comp_def split_def)

lemma aggregate_empty: "aggregate keys = [] \<longleftrightarrow> keys = []"
proof -
  have "sort_key sort_position ks = [] \<longleftrightarrow> ks = []" for ks :: "group_key list"
    by (metis length_0_conv length_sort)
  then show ?thesis by (simp add: aggregate_def)
qed

section \<open>What the run writes\<close>

lemma region_mapping_total: "\<exists>ds dict. region_mapping flows_df = (ds, Inr dict)"
proof (cases flows_df)
  case None
  then show ?thesis by (simp add: region_mapping_def)
next
  case (Some t)
  from country_region_lookup [of t] obtain dict where "country_region t = Inr dict" by blast
  with Some show ?thesis by (simp add: region_mapping_def)
qed

lemma main_reaches_transform:
  assumes "master_path s \<noteq> []" and "master_csv s = Some m"
    and "flows_path s \<noteq> [] \<longrightarrow> flows_csv s \<noteq> None" and "missing_master m = []"
  shows "main na parse s =
     after [Info ''Step 1'', Info ''Step 2 (optional)'']
       (transform na parse m (if flows_path s \<noteq> [] then flows_csv s else None) s)"
  using assms by (auto simp: main_def after_def Let_def)

lemma main_output:
  assumes "snd (main na parse s) = Inr (Some (p, out))"
  shows "\<exists>m. master_csv s = Some m \<and> missing_master m = [] \<and>
     snd (transform na parse m (if flows_path s \<noteq> [] then flows_csv s else None) s) =
       Inr (Some (p, out))"
  using assms by (auto simp: main_def after_def Let_def split: if_splits option.splits)

lemma transform_output:
  assumes "snd (transform na parse m flows_df s) = Inr (Some (p, out))"
  shows "\<exists>ds dict. region_mapping flows_df = (ds, Inr dict) \<and>
     (\<forall>r \<in> set (master_rows m). \<not> isl (compute_decade parse r)) \<and>
     out = aggregate (List.map_filter (record_key na parse dict) (master_rows m))"
proof -
  from region_mapping_total [of flows_df] obtain ds dict where
    r: "region_mapping flows_df = (ds, Inr dict)" by blast
  from assms have "(\<forall>r \<in> set (master_rows m). \<not> isl (compute_decade parse r)) \<and>
      out = aggregate (List.map_filter (record_key na parse dict) (master_rows m))"
    unfolding transform_by_record [OF r]
    by (auto simp: after_def save_def Let_def list_ex_iff split: if_splits)
  with r show ?thesis by blast
qed

lemma length_record_keys:
  "length (List.map_filter (record_key na parse dict) rws) =
     length (filter (\<lambda>r. \<exists>d. compute_decade parse r = Inr (Some d)) rws)"
proof -
  have "(decade_of parse r \<noteq> None) = (\<exists>d. compute_decade parse r = Inr (Some d))" for r
    using decade_of_Some [of parse r] by auto
  then show ?thesis by (simp add: map_filter_def record_key_None)
qed

text \<open>
  C5. Whenever the run writes an output, the \<open>n_objects\<close> of its rows add up to the
  number of records of the master table for which a decade was computed, and no two
  rows have the same key \<open>(region, country, decade, medium_group)\<close>.
\<close>

theorem aggregate_counts_survivors:
  assumes "main na parse s = (ds, Inr (Some (path, out)))" and "master_csv s = Some m"
  shows "sum_list (map n_objects out) =
           length (filter (\<lambda>r. \<exists>d. compute_decade parse r = Inr (Some d)) (master_rows m)) \<and>
         distinct (map key_of out)"
proof -
  from assms(1) have "snd (main na parse s) = Inr (Some (path, out))" by simp
  from main_output [OF this] assms(2) have
    "snd (transform na parse m (if flows_path s \<noteq> [] then flows_csv s else None) s) =
       Inr (Some (path, out))" by auto
  from transform_output [OF this] obtain dict where
    out: "out = aggregate (List.map_filter (record_key na parse dict) (master_rows m))" by blast
  have "sum_list (map n_objects out) =
      length (filter (\<lambda>r. \<exists>d. compute_decade parse r = Inr (Some d)) (master_rows m))"
    by (simp only: out sum_aggregate length_record_keys)
  moreover have "distinct (map key_of out)" by (simp add: out keys_aggregate)
  ultimately show ?thesis by blast
qed

lemma example_run:
  "main NaAsText example_parse example_session =
     ([Info ''Step 1'', Info ''Step 2 (optional)'', Info ''Step 3'', Info ''Done''],
      Inr (Some (''counts.csv'',
        [\<lparr>region = ''Europe'', country = Some ''France'', decade = 1870,
          medium_group = ''Paintings'', n_objects = 1\<rparr>,
         \<lparr>region = ''Europe'', country = Some ''France'', decade = 1870,
          medium_group = ''Prints'', n_objects = 1\<rparr>,
         \<lparr>region = ''Unknown'', country = Some ''Japan'', decade = 1630,
          medium_group = ''Decorative arts'', n_objects = 1\<rparr>,
         \<lparr>region = ''Unknown'', country = Some ''Unknown'', decade = 2020,
          medium_group = ''Sculpture'', n_objects = 1\<rparr>,
         \<lparr>region = ''Unknown'', country = Some ''nan'', decade = 1630,
          medium_group = ''Decorative arts'', n_objects = 1\<rparr>])))"
  by code_simp

lemma example_run_na_kept:
  "main NaKept example_parse example_session =
     ([Info ''Step 1'', Info ''Step 2 (optional)'', Info ''Step 3'', Info ''Done''],
      Inr (Some (''counts.csv'',
        [\<lparr>region = ''Europe'', country = Some ''France'', decade = 1870,
          medium_group = ''Paintings'', n_objects = 1\<rparr>,
         \<lparr>region = ''Europe'', country = Some ''France'', decade = 1870,
          medium_group = ''Prints'', n_objects = 1\<rparr>,
         \<lparr>region = ''Unknown'', country = Some ''Japan'', decade = 1630,
          medium_group = ''Decorative arts'', n_objects = 1\<rparr>,
         \<lparr>region = ''Unknown'', country = Some ''Unknown'', decade = 2020,
          medium_group = ''Sculpture'', n_objects = 1\<rparr>,
         \<lparr>region = ''Unknown'', country = None, decade = 1630,
          medium_group = ''Decorative arts'', n_objects = 1\<rparr>])))"
  by code_simp

theorem aggregate_counts_survivors_witness:
  "main NaAsText example_parse example_session =
     ([Info ''Step 1'', Info ''Step 2 (optional)'', Info ''Step 3'', Info ''Done''],
      Inr (Some (''counts.csv'',
        [\<lparr>region = ''Europe'', country = Some ''France'', decade = 1870,
          medium_group = ''Paintings'', n_objects = 1\<rparr>,
         \<lparr>region = ''Europe'', country = Some ''France'', decade = 1870,
          medium_group = ''Prints'', n_objects = 1\<rparr>,
         \<lparr>region = ''Unknown'', country = Some ''Japan'', decade = 1630,
          medium_group = ''Decorative arts'', n_objects = 1\<rparr>,
         \<lparr>region = ''Unknown'', country = Some ''Unknown'', decade = 2020,
          medium_group = ''Sculpture'', n_objects = 1\<rparr>,
         \<lparr>region = ''Unknown'', country = Some ''nan'', decade = 1630,
          medium_group = ''Decorative arts'', n_objects = 1\<rparr>]))) \<and>
   master_csv example_session = Some example_master \<and>
   length (filter (\<lambda>r. \<exists>d. compute_decade example_parse r = Inr (Some d))
     (master_rows example_master)) = 5"
proof -
  have m: "master_csv example_session = Some example_master" by (simp add: example_session_def)
  from aggregate_counts_survivors [OF example_run m]
  have "length (filter (\<lambda>r. \<exists>d. compute_decade example_parse r = Inr (Some d))
     (master_rows example_master)) = 5"
    by simp
  with example_run m show ?thesis by blast
qed

section \<open>Decades, dropped records and countries\<close>

lemma derive_index: "derive na parse dict (i, row) = Inr (Some d) \<Longrightarrow> row_index d = i"
  by (auto simp: derive_def Let_def split: sum.splits option.splits)

lemma set_map_filter_conv: "set (List.map_filter f xs) = {y. \<exists>x \<in> set xs. f x = Some y}"
  by (induction xs) (auto simp: map_filter_simps split: option.splits)

lemma in_prepare:
  assumes "prepare na parse dict m = Inr df"
  shows "d \<in> set df \<longleftrightarrow>
     row_index d < length (master_rows m) \<and>
     derive na parse dict (row_index d, master_rows m ! row_index d) = Inr (Some d)"
proof -
  let ?f = "derive na parse dict"
  let ?q = "\<lambda>ir. case ?f ir of Inl e \<Rightarrow> None | Inr d \<Rightarrow> d"
  from apply_rows_Inr [of ?f "enumerate 0 (master_rows m)" df] assms
  have quiet: "\<forall>ir \<in> set (enumerate 0 (master_rows m)). \<not> isl (?f ir)"
    by (simp add: prepare_def)
  from apply_rows_quiet [OF quiet] assms
  have df: "df = List.map_filter ?q (enumerate 0 (master_rows m))" by (simp add: prepare_def)
  have q: "?q ir = Some d \<longleftrightarrow> ?f ir = Inr (Some d)" for ir
    by (cases "?f ir") auto
  show ?thesis
  proof
    assume "d \<in> set df"
    then obtain i row where ir: "(i, row) \<in> set (enumerate 0 (master_rows m))"
        "?f (i, row) = Inr (Some d)"
      by (auto simp: df set_map_filter_conv q)
    from ir(2) have "row_index d = i" by (rule derive_index)
    with ir show "row_index d < length (master_rows m) \<and>
       ?f (row_index d, master_rows m ! row_index d) = Inr (Some d)"
      by (auto simp: in_set_enumerate_eq)
  next
    assume a: "row_index d < length (master_rows m) \<and>
       ?f (row_index d, master_rows m ! row_index d) = Inr (Some d)"
    then have "(row_index d, master_rows m ! row_index d) \<in> set (enumerate 0 (master_rows m))"
      by (simp add: in_set_enumerate_eq)
    with a show "d \<in> set df"
      unfolding df set_map_filter_conv using q by blast
  qed
qed

lemma dropped_iff:
  assumes "prepare na parse dict m = Inr df" and "i < length (master_rows m)"
  shows "(\<forall>d \<in> set df. row_index d \<noteq> i) \<longleftrightarrow> compute_decade parse (master_rows m ! i) = Inr None"
proof -
  from prepare_Inr [OF assms(1)] assms(2)
  have ni: "\<not> isl (compute_decade parse (master_rows m ! i))" by simp
  show ?thesis
  proof
    assume a: "\<forall>d \<in> set df. row_index d \<noteq> i"
    show "compute_decade parse (master_rows m ! i) = Inr None"
    proof (rule ccontr)
      assume "compute_decade parse (master_rows m ! i) \<noteq> Inr None"
      with ni obtain dec where "compute_decade parse (master_rows m ! i) = Inr (Some dec)"
        by (cases "compute_decade parse (master_rows m ! i)") auto
      then have "decade_of parse (master_rows m ! i) = Some dec" by (simp add: decade_of_Some)
      from derive_Some [OF this, of na dict i] obtain d where
        d: "derive na parse dict (i, master_rows m ! i) = Inr (Some d)" by blast
      then have "row_index d = i" by (rule derive_index)
      with d assms(2) have "d \<in> set df" by (simp add: in_prepare [OF assms(1)])
      with a \<open>row_index d = i\<close> show False by blast
    qed
  next
    assume n: "compute_decade parse (master_rows m ! i) = Inr None"
    show "\<forall>d \<in> set df. row_index d \<noteq> i"
    proof
      fix d assume "d \<in> set df"
      then have "derive na parse dict (row_index d, master_rows m ! row_index d) = Inr (Some d)"
        by (simp add: in_prepare [OF assms(1)])
      then have "compute_decade parse (master_rows m ! row_index d) \<noteq> Inr None"
        by (auto simp: derive_def Let_def split: sum.splits option.splits)
      with n show "row_index d \<noteq> i" by auto
    qed
  qed
qed

lemma finite_year_decade:
  assumes "numeric_year parse row = Some (Fin Y)"
  shows "compute_decade parse row =
           Inr (if \<lfloor>Y / 10\<rfloor> * 10 < 1400 \<or> 2020 < \<lfloor>Y / 10\<rfloor> * 10 then None
                else Some (\<lfloor>Y / 10\<rfloor> * 10)) \<and>
         (\<forall>na m dict i df. i < length (master_rows m) \<and> master_rows m ! i = row \<and>
              prepare na parse dict m = Inr df \<longrightarrow>
            ((\<forall>d \<in> set df. row_index d \<noteq> i) \<longleftrightarrow>
             (\<lfloor>Y / 10\<rfloor> * 10 < 1400 \<or> 2020 < \<lfloor>Y / 10\<rfloor> * 10)))"
proof -
  note c = compute_decade_finite [OF assms]
  have "(\<forall>d \<in> set df. row_index d \<noteq> i) \<longleftrightarrow>
        (\<lfloor>Y / 10\<rfloor> * 10 < 1400 \<or> 2020 < \<lfloor>Y / 10\<rfloor> * 10)"
    if "i < length (master_rows m)" "master_rows m ! i = row" "prepare na parse dict m = Inr df"
    for na m dict i df
    using dropped_iff [OF that(3) that(1)] that(2) c by (simp split: if_splits)
  with c show ?thesis by blast
qed

text \<open>
  C2. The claim holds for every finite year, by \<open>finite_year_decade\<close>: the calculator
  returns \<open>\<lfloor>Y / 10\<rfloor> * 10\<close> when that lies in the range and NaN otherwise, and in a run
  that gets past the decade step the record is left out exactly when the decade is less
  than 1400 or greater than 2020. An infinite year is a numeric year too: it passes both
  \<open>pd.isna\<close> tests, its decade would be beyond 2020, and the range test of line 109
  would leave the record out. But \<open>int\<close> on line 108 comes first and raises
  \<open>OverflowError\<close>: for the record whose start year is infinite the calculator returns
  nothing, and the run on a table with this record ends with the uncaught exception
  after its first two dialogs.
\<close>

theorem infinite_year_raises:
  "numeric_year example_parse example_infinite_year = Some PInf \<and>
   compute_decade example_parse example_infinite_year = Inl OverflowError \<and>
   main NaAsText example_parse
     (example_session\<lparr>master_csv :=
        Some (example_master\<lparr>master_rows := [example_infinite_year]\<rparr>)\<rparr>) =
     ([Info ''Step 1'', Info ''Step 2 (optional)''], Inl OverflowError) \<and>
   main NaKept example_parse
     (example_session\<lparr>master_csv :=
        Some (example_master\<lparr>master_rows := [example_infinite_year]\<rparr>)\<rparr>) =
     ([Info ''Step 1'', Info ''Step 2 (optional)''], Inl OverflowError)"
proof -
  have 1: "numeric_year example_parse example_infinite_year = Some PInf"
    by (simp add: numeric_year_def example_infinite_year_def)
  have 2: "compute_decade example_parse example_infinite_year = Inl OverflowError"
    by code_simp
  have 3: "main NaAsText example_parse
     (example_session\<lparr>master_csv :=
        Some (example_master\<lparr>master_rows := [example_infinite_year]\<rparr>)\<rparr>) =
     ([Info ''Step 1'', Info ''Step 2 (optional)''], Inl OverflowError)"
    by code_simp
  have 4: "main NaKept example_parse
     (example_session\<lparr>master_csv :=
        Some (example_master\<lparr>master_rows := [example_infinite_year]\<rparr>)\<rparr>) =
     ([Info ''Step 1'', Info ''Step 2 (optional)''], Inl OverflowError)"
    by code_simp
  from 1 2 3 4 show ?thesis by blast
qed

lemma to_numeric_None:
  "to_numeric parse x = None \<longleftrightarrow> x = NA \<or> (\<exists>s. x = Str s \<and> parse s = None)"
  by (cases x) simp_all

lemma both_years_missing:
  assumes "to_numeric parse (creation_start_year_std row) = None"
    and "to_numeric parse (creation_end_year_std row) = None"
  shows "compute_decade parse row = Inr None"
  using assms by (simp add: compute_decade_no_year numeric_year_def Let_def)

lemma main_drop_record:
  fixes m :: master_table and s :: session
  assumes "compute_decade parse row = Inr None"
  shows "main na parse (s\<lparr>master_csv := Some (m\<lparr>master_rows := pre @ row # post\<rparr>)\<rparr>) =
         main na parse (s\<lparr>master_csv := Some (m\<lparr>master_rows := pre @ post\<rparr>)\<rparr>)"
proof -
  let ?s1 = "s\<lparr>master_csv := Some (m\<lparr>master_rows := pre @ row # post\<rparr>)\<rparr>"
  let ?s2 = "s\<lparr>master_csv := Some (m\<lparr>master_rows := pre @ post\<rparr>)\<rparr>"
  from assms have d: "decade_of parse row = None" by (simp add: decade_of_def)
  have t: "transform na parse (m\<lparr>master_rows := pre @ row # post\<rparr>) f ?s1 =
      transform na parse (m\<lparr>master_rows := pre @ post\<rparr>) f ?s2" for f
  proof -
    from region_mapping_total [of f] obtain ds dict where
      r: "region_mapping f = (ds, Inr dict)" by blast
    have "List.map_filter (record_key na parse dict) (pre @ row # post) =
        List.map_filter (record_key na parse dict) (pre @ post)"
      using d by (simp add: map_filter_def record_key_None)
    moreover have "list_ex (\<lambda>r. isl (compute_decade parse r)) (pre @ row # post) =
        list_ex (\<lambda>r. isl (compute_decade parse r)) (pre @ post)"
      using assms by (simp add: list_ex_iff)
    ultimately show ?thesis by (simp add: transform_by_record [OF r] save_def Let_def)
  qed
  show ?thesis by (simp add: main_def Let_def missing_master_def t)
qed

text \<open>
  C3. The decade is computed from the number read from the start year when there is
  one, whatever the end year holds; when the start year is missing or no number, it is
  computed from the number read from the end year. When neither gives a number, no
  decade is computed, the record has no row in the frame that is aggregated, and the
  whole run goes as if the record were not in the master table: it contributes to no
  output row. By \<open>to_numeric_None\<close> a cell gives no number exactly when it is missing
  or a text that pandas reads no number from.
\<close>

theorem decade_start_then_end:
  "(\<forall>y. to_numeric parse (creation_start_year_std row) = Some (Fin y) \<longrightarrow>
        compute_decade parse row =
          Inr (if \<lfloor>y / 10\<rfloor> * 10 < 1400 \<or> 2020 < \<lfloor>y / 10\<rfloor> * 10 then None
               else Some (\<lfloor>y / 10\<rfloor> * 10))) \<and>
   (\<forall>y. to_numeric parse (creation_start_year_std row) = None \<and>
        to_numeric parse (creation_end_year_std row) = Some (Fin y) \<longrightarrow>
        compute_decade parse row =
          Inr (if \<lfloor>y / 10\<rfloor> * 10 < 1400 \<or> 2020 < \<lfloor>y / 10\<rfloor> * 10 then None
               else Some (\<lfloor>y / 10\<rfloor> * 10))) \<and>
   (\<forall>y. to_numeric parse (creation_start_year_std row) = Some y \<longrightarrow>
        numeric_year parse row = Some y) \<and>
   (to_numeric parse (creation_start_year_std row) = None \<longrightarrow>
        numeric_year parse row = to_numeric parse (creation_end_year_std row)) \<and>
   (to_numeric parse (creation_start_year_std row) = None \<and>
    to_numeric parse (creation_end_year_std row) = None \<longrightarrow>
        compute_decade parse row = Inr None \<and>
        (\<forall>na m dict i df. i < length (master_rows m) \<and> master_rows m ! i = row \<and>
             prepare na parse dict m = Inr df \<longrightarrow>
           (\<forall>d \<in> set df. row_index d \<noteq> i)) \<and>
        (\<forall>na (s::session) (m::master_table) pre post.
           main na parse (s\<lparr>master_csv := Some (m\<lparr>master_rows := pre @ row # post\<rparr>)\<rparr>) =
           main na parse (s\<lparr>master_csv := Some (m\<lparr>master_rows := pre @ post\<rparr>)\<rparr>)))"
proof (intro conjI allI impI)
  fix y assume "to_numeric parse (creation_start_year_std row) = Some (Fin y)"
  then have "numeric_year parse row = Some (Fin y)" by (simp add: numeric_year_def Let_def)
  then show "compute_decade parse row =
          Inr (if \<lfloor>y / 10\<rfloor> * 10 < 1400 \<or> 2020 < \<lfloor>y / 10\<rfloor> * 10 then None
               else Some (\<lfloor>y / 10\<rfloor> * 10))"
    by (rule compute_decade_finite)
next
  fix y assume "to_numeric parse (creation_start_year_std row) = None \<and>
        to_numeric parse (creation_end_year_std row) = Some (Fin y)"
  then have "numeric_year parse row = Some (Fin y)" by (simp add: numeric_year_def Let_def)
  then show "compute_decade parse row =
          Inr (if \<lfloor>y / 10\<rfloor> * 10 < 1400 \<or> 2020 < \<lfloor>y / 10\<rfloor> * 10 then None
               else Some (\<lfloor>y / 10\<rfloor> * 10))"
    by (rule compute_decade_finite)
next
  fix y assume "to_numeric parse (creation_start_year_std row) = Some y"
  then show "numeric_year parse row = Some y" by (simp add: numeric_year_def Let_def)
next
  assume "to_numeric parse (creation_start_year_std row) = None"
  then show "numeric_year parse row = to_numeric parse (creation_end_year_std row)"
    by (simp add: numeric_year_def Let_def)
next
  assume "to_numeric parse (creation_start_year_std row) = None \<and>
    to_numeric parse (creation_end_year_std row) = None"
  then show "compute_decade parse row = Inr None" by (simp add: both_years_missing)
next
  fix na and m :: master_table and dict i df
  assume a: "to_numeric parse (creation_start_year_std row) = None \<and>
    to_numeric parse (creation_end_year_std row) = None"
    and i: "i < length (master_rows m) \<and> master_rows m ! i = row \<and>
      prepare na parse dict m = Inr df"
  from a have "compute_decade parse row = Inr None" by (simp add: both_years_missing)
  with i dropped_iff [where i = i and m = m and parse = parse and dict = dict and na = na
      and df = df]
  show "\<forall>d \<in> set df. row_index d \<noteq> i" by simp
next
  fix na and s :: session and m :: master_table and pre post
  assume a: "to_numeric parse (creation_start_year_std row) = None \<and>
    to_numeric parse (creation_end_year_std row) = None"
  then have "compute_decade parse row = Inr None" by (simp add: both_years_missing)
  then show "main na parse (s\<lparr>master_csv := Some (m\<lparr>master_rows := pre @ row # post\<rparr>)\<rparr>) =
           main na parse (s\<lparr>master_csv := Some (m\<lparr>master_rows := pre @ post\<rparr>)\<rparr>)"
    by (rule main_drop_record)
qed

lemma example_rows:
  "master_rows example_master ! 0 =
     \<lparr>origin_country_std = Some ''France'', creation_start_year_std = Num (Fin 1875),
      creation_end_year_std = NA, classification_std = Some ''Painting'',
      medium_std = Some ''oil on canvas''\<rparr>"
  "master_rows example_master ! 3 =
     \<lparr>origin_country_std = None, creation_start_year_std = Str ''about 1630'',
      creation_end_year_std = Num (Fin 1639), classification_std = None,
      medium_std = Some ''Porcelain''\<rparr>"
  "master_rows example_master ! 4 =
     \<lparr>origin_country_std = Some ''  '', creation_start_year_std = NA,
      creation_end_year_std = Num (Fin (4041 / 2)), classification_std = Some ''Sculpture'',
      medium_std = None\<rparr>"
  "master_rows example_master ! 5 =
     \<lparr>origin_country_std = Some ''Italy'', creation_start_year_std = Num (Fin 1300),
      creation_end_year_std = Num (Fin 1450), classification_std = Some ''Painting'',
      medium_std = Some ''tempera''\<rparr>"
  "master_rows example_master ! 6 =
     \<lparr>origin_country_std = Some ''Peru'', creation_start_year_std = Str ''undated'',
      creation_end_year_std = NA, classification_std = Some ''Textile'',
      medium_std = Some ''wool''\<rparr>"
  "length (master_rows example_master) = 7"
  by (simp_all add: example_master_def)

lemma example_prepare:
  "prepare NaAsText example_parse [(''France'', ''Europe'')] example_master =
     Inr [\<lparr>row_index = 0, df_region = ''Europe'', df_country = Some ''France'', df_decade = 1870\<rparr>,
      \<lparr>row_index = 1, df_region = ''Europe'', df_country = Some ''France'', df_decade = 1870\<rparr>,
      \<lparr>row_index = 2, df_region = ''Unknown'', df_country = Some ''Japan'', df_decade = 1630\<rparr>,
      \<lparr>row_index = 3, df_region = ''Unknown'', df_country = Some ''nan'', df_decade = 1630\<rparr>,
      \<lparr>row_index = 4, df_region = ''Unknown'', df_country = Some ''Unknown'', df_decade = 2020\<rparr>]"
  by code_simp

lemma example_prepare_na_kept:
  "prepare NaKept example_parse [(''France'', ''Europe'')] example_master =
     Inr [\<lparr>row_index = 0, df_region = ''Europe'', df_country = Some ''France'', df_decade = 1870\<rparr>,
      \<lparr>row_index = 1, df_region = ''Europe'', df_country = Some ''France'', df_decade = 1870\<rparr>,
      \<lparr>row_index = 2, df_region = ''Unknown'', df_country = Some ''Japan'', df_decade = 1630\<rparr>,
      \<lparr>row_index = 3, df_region = ''Unknown'', df_country = None, df_decade = 1630\<rparr>,
      \<lparr>row_index = 4, df_region = ''Unknown'', df_country = Some ''Unknown'', df_decade = 2020\<rparr>]"
  by code_simp

theorem decade_start_then_end_witness:
  "to_numeric example_parse (creation_start_year_std (master_rows example_master ! 5)) =
     Some (Fin 1300) \<and>
   to_numeric example_parse (creation_end_year_std (master_rows example_master ! 5)) =
     Some (Fin 1450) \<and>
   compute_decade example_parse (master_rows example_master ! 5) = Inr None \<and>
   to_numeric example_parse (creation_start_year_std (master_rows example_master ! 0)) =
     Some (Fin 1875) \<and>
   compute_decade example_parse (master_rows example_master ! 0) = Inr (Some 1870) \<and>
   numeric_year example_parse (master_rows example_master ! 0) = Some (Fin 1875) \<and>
   to_numeric example_parse (creation_start_year_std (master_rows example_master ! 3)) = None \<and>
   to_numeric example_parse (creation_end_year_std (master_rows example_master ! 3)) =
     Some (Fin 1639) \<and>
   compute_decade example_parse (master_rows example_master ! 3) = Inr (Some 1630) \<and>
   numeric_year example_parse (master_rows example_master ! 3) = Some (Fin 1639) \<and>
   to_numeric example_parse (creation_start_year_std (master_rows example_master ! 6)) = None \<and>
   to_numeric example_parse (creation_end_year_std (master_rows example_master ! 6)) = None \<and>
   compute_decade example_parse (master_rows example_master ! 6) = Inr None \<and>
   6 \<notin> set (map row_index [\<lparr>row_index = 0, df_region = ''Europe'', df_country = Some ''France'', df_decade = 1870\<rparr>,
      \<lparr>row_index = 1, df_region = ''Europe'', df_country = Some ''France'', df_decade = 1870\<rparr>,
      \<lparr>row_index = 2, df_region = ''Unknown'', df_country = Some ''Japan'', df_decade = 1630\<rparr>,
      \<lparr>row_index = 3, df_region = ''Unknown'', df_country = Some ''nan'', df_decade = 1630\<rparr>,
      \<lparr>row_index = 4, df_region = ''Unknown'', df_country = Some ''Unknown'', df_decade = 2020\<rparr>]) \<and>
   main NaAsText example_parse
     (example_session\<lparr>master_csv := Some (example_master\<lparr>master_rows :=
        take 6 (master_rows example_master) @ master_rows example_master ! 6 # []\<rparr>)\<rparr>) =
   main NaAsText example_parse
     (example_session\<lparr>master_csv := Some (example_master\<lparr>master_rows :=
        take 6 (master_rows example_master) @ []\<rparr>)\<rparr>)"
proof -
  let ?df = "[\<lparr>row_index = 0, df_region = ''Europe'', df_country = Some ''France'', df_decade = 1870\<rparr>,
      \<lparr>row_index = 1, df_region = ''Europe'', df_country = Some ''France'', df_decade = 1870\<rparr>,
      \<lparr>row_index = 2, df_region = ''Unknown'', df_country = Some ''Japan'', df_decade = 1630\<rparr>,
      \<lparr>row_index = 3, df_region = ''Unknown'', df_country = Some ''nan'', df_decade = 1630\<rparr>,
      \<lparr>row_index = 4, df_region = ''Unknown'', df_country = Some ''Unknown'', df_decade = 2020\<rparr>]"
  have s5: "to_numeric example_parse (creation_start_year_std (master_rows example_master ! 5)) =
      Some (Fin 1300)"
    by (simp add: example_rows)
  have e5: "to_numeric example_parse (creation_end_year_std (master_rows example_master ! 5)) =
      Some (Fin 1450)"
    by (simp add: example_rows)
  have s0: "to_numeric example_parse (creation_start_year_std (master_rows example_master ! 0)) =
      Some (Fin 1875)"
    by (simp add: example_rows)
  have s3: "to_numeric example_parse (creation_start_year_std (master_rows example_master ! 3)) = None"
    by (simp add: example_rows example_parse_def)
  have e3: "to_numeric example_parse (creation_end_year_std (master_rows example_master ! 3)) =
      Some (Fin 1639)"
    by (simp add: example_rows)
  have s6: "to_numeric example_parse (creation_start_year_std (master_rows example_master ! 6)) = None"
    by (simp add: example_rows example_parse_def)
  have e6: "to_numeric example_parse (creation_end_year_std (master_rows example_master ! 6)) = None"
    by (simp add: example_rows)
  have l6: "6 < length (master_rows example_master)" by (simp add: example_rows)
  have f5: "\<lfloor>(1300::rat) / 10\<rfloor> * 10 = 1300" by code_simp
  have f0: "\<lfloor>(1875::rat) / 10\<rfloor> * 10 = 1870" by code_simp
  have f3: "\<lfloor>(1639::rat) / 10\<rfloor> * 10 = 1630" by code_simp
  note t5 = decade_start_then_end [of example_parse "master_rows example_master ! 5"]
  note t0 = decade_start_then_end [of example_parse "master_rows example_master ! 0"]
  note t3 = decade_start_then_end [of example_parse "master_rows example_master ! 3"]
  note t6 = decade_start_then_end [of example_parse "master_rows example_master ! 6"]
  from t5 s5 have "compute_decade example_parse (master_rows example_master ! 5) =
      Inr (if \<lfloor>(1300::rat) / 10\<rfloor> * 10 < 1400 \<or> 2020 < \<lfloor>(1300::rat) / 10\<rfloor> * 10 then None
           else Some (\<lfloor>(1300::rat) / 10\<rfloor> * 10))" by blast
  then have c5: "compute_decade example_parse (master_rows example_master ! 5) = Inr None"
    unfolding f5 by simp
  from t0 s0 have "compute_decade example_parse (master_rows example_master ! 0) =
      Inr (if \<lfloor>(1875::rat) / 10\<rfloor> * 10 < 1400 \<or> 2020 < \<lfloor>(1875::rat) / 10\<rfloor> * 10 then None
           else Some (\<lfloor>(1875::rat) / 10\<rfloor> * 10))" by blast
  then have c0: "compute_decade example_parse (master_rows example_master ! 0) = Inr (Some 1870)"
    unfolding f0 by simp
  from t0 s0 have a: "numeric_year example_parse (master_rows example_master ! 0) = Some (Fin 1875)"
    by blast
  from t3 s3 e3 have "compute_decade example_parse (master_rows example_master ! 3) =
      Inr (if \<lfloor>(1639::rat) / 10\<rfloor> * 10 < 1400 \<or> 2020 < \<lfloor>(1639::rat) / 10\<rfloor> * 10 then None
           else Some (\<lfloor>(1639::rat) / 10\<rfloor> * 10))" by blast
  then have c3: "compute_decade example_parse (master_rows example_master ! 3) = Inr (Some 1630)"
    unfolding f3 by simp
  from t3 s3 e3 have b: "numeric_year example_parse (master_rows example_master ! 3) = Some (Fin 1639)"
    by simp
  from t6 s6 e6
  have c: "compute_decade example_parse (master_rows example_master ! 6) = Inr None"
    and d: "\<forall>na m dict i df. i < length (master_rows m) \<and>
              master_rows m ! i = master_rows example_master ! 6 \<and>
              prepare na example_parse dict m = Inr df \<longrightarrow>
              (\<forall>d \<in> set df. row_index d \<noteq> i)"
    and e: "\<forall>na (s::session) (m::master_table) pre post.
           main na example_parse (s\<lparr>master_csv := Some (m\<lparr>master_rows :=
             pre @ master_rows example_master ! 6 # post\<rparr>)\<rparr>) =
           main na example_parse (s\<lparr>master_csv := Some (m\<lparr>master_rows := pre @ post\<rparr>)\<rparr>)"
    by blast+
  from d l6 example_prepare have "\<forall>d \<in> set ?df. row_index d \<noteq> 6"
    by blast
  then have d': "6 \<notin> set (map row_index ?df)"
    by auto
  from e have e': "main NaAsText example_parse
     (example_session\<lparr>master_csv := Some (example_master\<lparr>master_rows :=
        take 6 (master_rows example_master) @ master_rows example_master ! 6 # []\<rparr>)\<rparr>) =
   main NaAsText example_parse
     (example_session\<lparr>master_csv := Some (example_master\<lparr>master_rows :=
        take 6 (master_rows example_master) @ []\<rparr>)\<rparr>)" by blast
  from s5 e5 c5 s0 c0 a s3 e3 c3 b s6 e6 c d' e' show ?thesis by blast
qed

text \<open>
  C9. A record whose country cell, converted to text and stripped of white space, is
  the empty text has the country \<open>Unknown\<close> in the frame that is grouped.
\<close>

theorem blank_country_unknown:
  assumes "i < length (master_rows m)"
    and "map_option strip (astype_str na (origin_country_std (master_rows m ! i))) = Some []"
    and "prepare na parse country_to_region m = Inr df"
    and "d \<in> set df" and "row_index d = i"
  shows "df_country d = Some ''Unknown''"
proof -
  from assms(4,5) have "derive na parse country_to_region (i, master_rows m ! i) = Inr (Some d)"
    by (auto simp: in_prepare [OF assms(3)])
  with assms(2) show ?thesis
    by (auto simp: derive_def Let_def split: sum.splits option.splits)
qed

theorem blank_country_unknown_witness:
  "4 < length (master_rows example_master) \<and>
   map_option strip (astype_str NaAsText (origin_country_std (master_rows example_master ! 4))) =
     Some [] \<and>
   \<lparr>row_index = 4, df_region = ''Unknown'', df_country = Some ''Unknown'', df_decade = 2020\<rparr>
     \<in> set [\<lparr>row_index = 0, df_region = ''Europe'', df_country = Some ''France'', df_decade = 1870\<rparr>,
      \<lparr>row_index = 1, df_region = ''Europe'', df_country = Some ''France'', df_decade = 1870\<rparr>,
      \<lparr>row_index = 2, df_region = ''Unknown'', df_country = Some ''Japan'', df_decade = 1630\<rparr>,
      \<lparr>row_index = 3, df_region = ''Unknown'', df_country = Some ''nan'', df_decade = 1630\<rparr>,
      \<lparr>row_index = 4, df_region = ''Unknown'', df_country = Some ''Unknown'', df_decade = 2020\<rparr>] \<and>
   df_country \<lparr>row_index = 4, df_region = ''Unknown'', df_country = Some ''Unknown'',
     df_decade = 2020\<rparr> = Some ''Unknown''"
proof -
  let ?d = "\<lparr>row_index = 4, df_region = ''Unknown'', df_country = Some ''Unknown'', df_decade = 2020\<rparr>"
  let ?df = "[\<lparr>row_index = 0, df_region = ''Europe'', df_country = Some ''France'', df_decade = 1870\<rparr>,
      \<lparr>row_index = 1, df_region = ''Europe'', df_country = Some ''France'', df_decade = 1870\<rparr>,
      \<lparr>row_index = 2, df_region = ''Unknown'', df_country = Some ''Japan'', df_decade = 1630\<rparr>,
      \<lparr>row_index = 3, df_region = ''Unknown'', df_country = Some ''nan'', df_decade = 1630\<rparr>,
      \<lparr>row_index = 4, df_region = ''Unknown'', df_country = Some ''Unknown'', df_decade = 2020\<rparr>]"
  have l: "4 < length (master_rows example_master)" by (simp add: example_rows)
  have b: "map_option strip (astype_str NaAsText (origin_country_std (master_rows example_master ! 4)))
      = Some []"
    unfolding example_rows by code_simp
  have p: "?d \<in> set ?df" by simp
  have i: "row_index ?d = 4" by simp
  from blank_country_unknown [OF l b example_prepare p i] l b p show ?thesis by blast
qed

lemma strip_nan: "strip ''nan'' = ''nan''"
  by code_simp

lemma no_nan_key:
  assumes "region_mapping flows_df = (ds, Inr dict)"
    and "\<forall>t. flows_df = Some t \<longrightarrow> (\<forall>r \<in> set (flows_rows t). origin_country r \<noteq> Some ''nan'')"
  shows "map_region dict ''nan'' = ''Unknown''"
proof (cases flows_df)
  case None
  with assms(1) show ?thesis by (simp add: region_mapping_def map_region_def)
next
  case (Some t)
  show ?thesis
  proof (cases "FLOWS_COUNTRY_COL \<notin> set (flows_columns t) \<or> FLOWS_REGION_COL \<notin> set (flows_columns t)")
    case True
    with Some assms(1) show ?thesis by (auto simp: region_mapping_def map_region_def)
  next
    case False
    with Some assms(1) have d: "country_region t = Inr dict" by (simp add: region_mapping_def)
    from Some assms(2) have "occurrences (flows_rows t) ''nan'' g = 0" for g
      by (simp add: occurrences_def)
    with country_region_lookup [of t] d have "map_of dict ''nan'' = None" by auto
    then show ?thesis by (simp add: map_region_def)
  qed
qed

text \<open>
  C10, as stated, fails where \<open>astype(str)\<close> keeps a missing value (pandas 3): the
  fourth record of the example table has no country, its conversion is not the text
  \<open>nan\<close>, and the record is grouped under a missing country.
\<close>

theorem missing_country_na_kept_counterexample:
  "origin_country_std (master_rows example_master ! 3) = None \<and>
   astype_str NaKept (origin_country_std (master_rows example_master ! 3)) \<noteq> Some ''nan'' \<and>
   prepare NaKept example_parse [(''France'', ''Europe'')] example_master =
     Inr [\<lparr>row_index = 0, df_region = ''Europe'', df_country = Some ''France'', df_decade = 1870\<rparr>,
      \<lparr>row_index = 1, df_region = ''Europe'', df_country = Some ''France'', df_decade = 1870\<rparr>,
      \<lparr>row_index = 2, df_region = ''Unknown'', df_country = Some ''Japan'', df_decade = 1630\<rparr>,
      \<lparr>row_index = 3, df_region = ''Unknown'', df_country = None, df_decade = 1630\<rparr>,
      \<lparr>row_index = 4, df_region = ''Unknown'', df_country = Some ''Unknown'', df_decade = 2020\<rparr>] \<and>
   snd (main NaKept example_parse example_session) =
     Inr (Some (''counts.csv'',
        [\<lparr>region = ''Europe'', country = Some ''France'', decade = 1870,
          medium_group = ''Paintings'', n_objects = 1\<rparr>,
         \<lparr>region = ''Europe'', country = Some ''France'', decade = 1870,
          medium_group = ''Prints'', n_objects = 1\<rparr>,
         \<lparr>region = ''Unknown'', country = Some ''Japan'', decade = 1630,
          medium_group = ''Decorative arts'', n_objects = 1\<rparr>,
         \<lparr>region = ''Unknown'', country = Some ''Unknown'', decade = 2020,
          medium_group = ''Sculpture'', n_objects = 1\<rparr>,
         \<lparr>region = ''Unknown'', country = None, decade = 1630,
          medium_group = ''Decorative arts'', n_objects = 1\<rparr>]))"
proof -
  have 1: "origin_country_std (master_rows example_master ! 3) = None"
    by (simp add: example_rows)
  then have 2: "astype_str NaKept (origin_country_std (master_rows example_master ! 3)) \<noteq>
      Some ''nan''"
    by (simp add: astype_str_def)
  from 1 2 example_prepare_na_kept example_run_na_kept show ?thesis by simp
qed

text \<open>
  C10, amended. A record whose country cell is missing is never grouped under the country
  \<open>Unknown\<close>: where \<open>astype(str)\<close> turns a missing value into text (pandas before
  version 3) its country is the text \<open>nan\<close>, and where the conversion keeps missing
  values (pandas 3) its country stays missing. In both cases its region is \<open>Unknown\<close>.
  For the text \<open>nan\<close> the region relies on the lookup table having no country cell with
  that text; \<open>pd.read_csv\<close> reads it as a missing value, so a table it delivers has none.
\<close>

theorem missing_country_by_conversion:
  assumes "i < length (master_rows m)"
    and "origin_country_std (master_rows m ! i) = None"
    and "prepare na parse country_to_region m = Inr df"
    and "d \<in> set df" and "row_index d = i"
    and "region_mapping flows_df = (ds, Inr country_to_region)"
    and "\<forall>t. flows_df = Some t \<longrightarrow> (\<forall>r \<in> set (flows_rows t). origin_country r \<noteq> Some ''nan'')"
  shows "astype_str na (origin_country_std (master_rows m ! i)) =
           (case na of NaAsText \<Rightarrow> Some ''nan'' | NaKept \<Rightarrow> None) \<and>
         df_country d = (case na of NaAsText \<Rightarrow> Some ''nan'' | NaKept \<Rightarrow> None) \<and>
         df_country d \<noteq> Some ''Unknown'' \<and>
         df_region d = ''Unknown''"
proof -
  from assms(4,5) have d: "derive na parse country_to_region (i, master_rows m ! i) = Inr (Some d)"
    by (auto simp: in_prepare [OF assms(3)])
  show ?thesis
  proof (cases na)
    case NaAsText
    with d assms(2) have "df_country d = Some ''nan''"
      "df_region d = map_region country_to_region ''nan''"
      by (auto simp: derive_def Let_def astype_str_def strip_nan split: sum.splits option.splits)
    with no_nan_key [OF assms(6,7)] assms(2) NaAsText show ?thesis by (simp add: astype_str_def)
  next
    case NaKept
    with d assms(2) have "df_country d = None" "df_region d = ''Unknown''"
      by (auto simp: derive_def Let_def astype_str_def split: sum.splits option.splits)
    with assms(2) NaKept show ?thesis by (simp add: astype_str_def)
  qed
qed

theorem missing_country_by_conversion_witness:
  "3 < length (master_rows example_master) \<and>
   origin_country_std (master_rows example_master ! 3) = None \<and>
   prepare NaAsText example_parse [(''France'', ''Europe'')] example_master =
     Inr [\<lparr>row_index = 0, df_region = ''Europe'', df_country = Some ''France'', df_decade = 1870\<rparr>,
      \<lparr>row_index = 1, df_region = ''Europe'', df_country = Some ''France'', df_decade = 1870\<rparr>,
      \<lparr>row_index = 2, df_region = ''Unknown'', df_country = Some ''Japan'', df_decade = 1630\<rparr>,
      \<lparr>row_index = 3, df_region = ''Unknown'', df_country = Some ''nan'', df_decade = 1630\<rparr>,
      \<lparr>row_index = 4, df_region = ''Unknown'', df_country = Some ''Unknown'', df_decade = 2020\<rparr>] \<and>
   region_mapping (Some example_flows) = ([], Inr [(''France'', ''Europe'')]) \<and>
   Some ''nan'' \<notin> set (map origin_country (flows_rows example_flows)) \<and>
   astype_str NaAsText (origin_country_std (master_rows example_master ! 3)) = Some ''nan'' \<and>
   astype_str NaKept (origin_country_std (master_rows example_master ! 3)) = None"
proof -
  let ?d = "\<lparr>row_index = 3, df_region = ''Unknown'', df_country = Some ''nan'', df_decade = 1630\<rparr>"
  let ?k = "\<lparr>row_index = 3, df_region = ''Unknown'', df_country = None, df_decade = 1630\<rparr>"
  have l: "3 < length (master_rows example_master)" by (simp add: example_rows)
  have n: "origin_country_std (master_rows example_master ! 3) = None"
    by (simp add: example_rows)
  have i: "row_index ?d = 3" "row_index ?k = 3" by simp_all
  have f: "Some ''nan'' \<notin> set (map origin_country (flows_rows example_flows))"
    by (simp add: example_flows_def)
  then have f': "\<forall>t. Some example_flows = Some t \<longrightarrow>
      (\<forall>r \<in> set (flows_rows t). origin_country r \<noteq> Some ''nan'')" by force
  have p: "?d \<in> set [\<lparr>row_index = 0, df_region = ''Europe'', df_country = Some ''France'', df_decade = 1870\<rparr>,
      \<lparr>row_index = 1, df_region = ''Europe'', df_country = Some ''France'', df_decade = 1870\<rparr>,
      \<lparr>row_index = 2, df_region = ''Unknown'', df_country = Some ''Japan'', df_decade = 1630\<rparr>,
      \<lparr>row_index = 3, df_region = ''Unknown'', df_country = Some ''nan'', df_decade = 1630\<rparr>,
      \<lparr>row_index = 4, df_region = ''Unknown'', df_country = Some ''Unknown'', df_decade = 2020\<rparr>]"
    by simp
  have q: "?k \<in> set [\<lparr>row_index = 0, df_region = ''Europe'', df_country = Some ''France'', df_decade = 1870\<rparr>,
      \<lparr>row_index = 1, df_region = ''Europe'', df_country = Some ''France'', df_decade = 1870\<rparr>,
      \<lparr>row_index = 2, df_region = ''Unknown'', df_country = Some ''Japan'', df_decade = 1630\<rparr>,
      \<lparr>row_index = 3, df_region = ''Unknown'', df_country = None, df_decade = 1630\<rparr>,
      \<lparr>row_index = 4, df_region = ''Unknown'', df_country = Some ''Unknown'', df_decade = 2020\<rparr>]"
    by simp
  from missing_country_by_conversion [OF l n example_prepare p i(1) example_flows_dict f']
  have a: "astype_str NaAsText (origin_country_std (master_rows example_master ! 3)) = Some ''nan''"
    by simp
  from missing_country_by_conversion [OF l n example_prepare_na_kept q i(2) example_flows_dict f']
  have b: "astype_str NaKept (origin_country_std (master_rows example_master ! 3)) = None"
    by simp
  from l n example_prepare example_flows_dict f a b show ?thesis by blast
qed

section \<open>Absent columns and empty results\<close>

lemma absent_column_raises:
  assumes "master_path s \<noteq> []" and "master_csv s = Some m"
    and "flows_path s \<noteq> [] \<longrightarrow> flows_csv s \<noteq> None" and "missing_master m = []"
    and "MASTER_CLASS_COL \<notin> set (master_columns m) \<or> MASTER_MEDIUM_COL \<notin> set (master_columns m)"
    and "\<forall>r \<in> set (master_rows m). \<not> isl (compute_decade parse r)"
    and "\<exists>r \<in> set (master_rows m). \<exists>d. compute_decade parse r = Inr (Some d)"
  shows "snd (main na parse s) = Inl AttributeError"
proof -
  let ?f = "if flows_path s \<noteq> [] then flows_csv s else None"
  from region_mapping_total [of ?f] obtain ds dict where
    r: "region_mapping ?f = (ds, Inr dict)" by blast
  from assms(7) have "\<exists>r \<in> set (master_rows m). decade_of parse r \<noteq> None"
    by (force simp: decade_of_def)
  then have "List.map_filter (record_key na parse dict) (master_rows m) \<noteq> []"
    by (auto simp: map_filter_empty filter_empty_conv)
  with assms(5,6) have "snd (transform na parse m ?f s) = Inl AttributeError"
    by (simp add: transform_by_record [OF r] after_def Let_def list_ex_iff)
  then show ?thesis
    by (simp add: main_reaches_transform [OF assms(1-4)] after_def)
qed

text \<open>
  C6. The source binds \<open>classification\<close> and \<open>medium_raw\<close> to the string \<open>""\<close>
  when the master table lacks the column, and then calls \<open>reindex\<close> on them. On the
  master table that has the three required columns only, with one record from 1875, the
  run shows its first two dialogs and ends with an uncaught \<open>AttributeError\<close>: no record
  is classified and no file is written, whatever the conversion of missing countries.
  By \<open>absent_column_raises\<close> the same holds for every run that lacks one of the two
  columns, has a record with a decade and no record on which the calculator raises.
\<close>

theorem absent_optional_column_raises:
  "main NaAsText example_parse
     (example_session\<lparr>master_csv := Some example_required_only, flows_path := []\<rparr>) =
   ([Info ''Step 1'', Info ''Step 2 (optional)''], Inl AttributeError) \<and>
   main NaKept example_parse
     (example_session\<lparr>master_csv := Some example_required_only, flows_path := []\<rparr>) =
   ([Info ''Step 1'', Info ''Step 2 (optional)''], Inl AttributeError)"
proof -
  have "main NaAsText example_parse
     (example_session\<lparr>master_csv := Some example_required_only, flows_path := []\<rparr>) =
   ([Info ''Step 1'', Info ''Step 2 (optional)''], Inl AttributeError)"
    by code_simp
  moreover have "main NaKept example_parse
     (example_session\<lparr>master_csv := Some example_required_only, flows_path := []\<rparr>) =
   ([Info ''Step 1'', Info ''Step 2 (optional)''], Inl AttributeError)"
    by code_simp
  ultimately show ?thesis by blast
qed

lemma save_flows_path: "save grouped (s\<lparr>flows_path := p\<rparr>) = save grouped s"
  by (simp add: save_def)

lemma transform_flows_path:
  "transform na parse m flows_df (s\<lparr>flows_path := p\<rparr>) = transform na parse m flows_df s"
  unfolding transform_def save_flows_path by (rule refl)

lemma region_mapping_columns_missing:
  assumes "FLOWS_COUNTRY_COL \<notin> set (flows_columns t) \<or> FLOWS_REGION_COL \<notin> set (flows_columns t)"
  shows "region_mapping (Some t) = ([Warning ''Flows columns missing''], Inr [])"
  using assms by (auto simp: region_mapping_def)

lemma region_mapping_no_flows: "region_mapping None = ([], Inr [])"
  by (simp add: region_mapping_def)

lemma transform_columns_missing:
  assumes "FLOWS_COUNTRY_COL \<notin> set (flows_columns t) \<or> FLOWS_REGION_COL \<notin> set (flows_columns t)"
  shows "transform na parse m (Some t) s =
           after [Warning ''Flows columns missing''] (transform na parse m None s)"
  by (simp add: transform_by_record [OF region_mapping_columns_missing [OF assms]]
      transform_by_record [OF region_mapping_no_flows] after_def)

lemma transform_no_flows_dialogs:
  "Warning ''Flows columns missing'' \<notin> set (fst (transform na parse m None s))"
  by (simp add: transform_by_record [OF region_mapping_no_flows] after_def save_def Let_def)

lemma in_aggregate: "a \<in> set (aggregate keys) \<Longrightarrow> key_of a \<in> set keys"
proof -
  assume "a \<in> set (aggregate keys)"
  then have "key_of a \<in> set (map key_of (aggregate keys))" by simp
  then show ?thesis by (simp add: keys_aggregate)
qed

lemma record_key_no_dict:
  "k \<in> set (List.map_filter (record_key na parse []) rws) \<Longrightarrow> fst k = ''Unknown''"
  by (auto simp: set_map_filter_conv record_key_def map_region_def Let_def split: option.splits)


lemma main_flows_columns_missing:
  fixes s :: session
  assumes "flows_path s \<noteq> []" and "flows_csv s = Some t"
    and "FLOWS_COUNTRY_COL \<notin> set (flows_columns t) \<or> FLOWS_REGION_COL \<notin> set (flows_columns t)"
  shows "main na parse s =
     (if master_path s \<noteq> [] \<and> (\<exists>m. master_csv s = Some m \<and> missing_master m = [])
      then after [Info ''Step 1'', Info ''Step 2 (optional)'', Warning ''Flows columns missing'']
             (transform na parse (the (master_csv s)) None s)
      else main na parse (s\<lparr>flows_path := []\<rparr>))"
    and "master_path s \<noteq> [] \<and> (\<exists>m. master_csv s = Some m \<and> missing_master m = []) \<Longrightarrow>
      main na parse (s\<lparr>flows_path := []\<rparr>) =
        after [Info ''Step 1'', Info ''Step 2 (optional)'']
          (transform na parse (the (master_csv s)) None s)"
  using assms
  by (auto simp: main_def Let_def after_def transform_columns_missing transform_flows_path
      split: option.splits)

text \<open>
  C7. When a lookup table is supplied and read but lacks one of its two expected columns,
  the run has the same result as the run without a lookup table, and the same dialogs
  but for the warning \<open>Flows columns missing\<close>. When the master table is selected, read
  and has its required columns, that warning is shown right after the first two dialogs
  and the run goes on. Every row the run writes has the region \<open>Unknown\<close>.
\<close>

theorem flows_columns_missing_ignored:
  fixes s :: session
  assumes "flows_path s \<noteq> []" and "flows_csv s = Some t"
    and "FLOWS_COUNTRY_COL \<notin> set (flows_columns t) \<or> FLOWS_REGION_COL \<notin> set (flows_columns t)"
  shows "snd (main na parse s) = snd (main na parse (s\<lparr>flows_path := []\<rparr>)) \<and>
         filter (\<lambda>d. d \<noteq> Warning ''Flows columns missing'') (fst (main na parse s)) =
           fst (main na parse (s\<lparr>flows_path := []\<rparr>)) \<and>
         (master_path s \<noteq> [] \<and> (\<exists>m. master_csv s = Some m \<and> missing_master m = []) \<longrightarrow>
            fst (main na parse s) =
              [Info ''Step 1'', Info ''Step 2 (optional)'', Warning ''Flows columns missing''] @
              drop 2 (fst (main na parse (s\<lparr>flows_path := []\<rparr>)))) \<and>
         (\<forall>p out. snd (main na parse s) = Inr (Some (p, out)) \<longrightarrow>
            (\<forall>a \<in> set out. region a = ''Unknown''))"
proof (cases "master_path s \<noteq> [] \<and> (\<exists>m. master_csv s = Some m \<and> missing_master m = [])")
  case False
  with main_flows_columns_missing(1) [OF assms, of na parse]
  have e: "main na parse s = main na parse (s\<lparr>flows_path := []\<rparr>)" by simp
  have n: "Warning ''Flows columns missing'' \<notin> set (fst (main na parse (s\<lparr>flows_path := []\<rparr>)))"
    using False
    by (auto simp: main_def Let_def after_def split: option.splits)
  have o: "\<forall>p out. snd (main na parse s) \<noteq> Inr (Some (p, out))"
    using False by (auto simp: main_def Let_def after_def split: option.splits)
  from e have r: "snd (main na parse s) = snd (main na parse (s\<lparr>flows_path := []\<rparr>))" by simp
  from e n have f: "filter (\<lambda>d. d \<noteq> Warning ''Flows columns missing'') (fst (main na parse s)) =
      fst (main na parse (s\<lparr>flows_path := []\<rparr>))"
    by (auto simp: filter_id_conv)
  from r f o False show ?thesis by blast
next
  case True
  then obtain m where m: "master_csv s = Some m" "missing_master m = []" by blast
  let ?t = "transform na parse m None s"
  from main_flows_columns_missing [OF assms, of na parse] True m
  have 1: "main na parse s =
      after [Info ''Step 1'', Info ''Step 2 (optional)'', Warning ''Flows columns missing''] ?t"
    and 2: "main na parse (s\<lparr>flows_path := []\<rparr>) = after [Info ''Step 1'', Info ''Step 2 (optional)''] ?t"
    by simp_all
  have n: "filter (\<lambda>d. d \<noteq> Warning ''Flows columns missing'') (fst ?t) = fst ?t"
    using transform_no_flows_dialogs [of na parse m s] by (auto simp: filter_id_conv)
  have u: "\<forall>a \<in> set out. region a = ''Unknown''" if "snd (main na parse s) = Inr (Some (p, out))" for p out
  proof
    fix a assume a: "a \<in> set out"
    from that have "snd ?t = Inr (Some (p, out))" by (simp add: 1 after_def)
    from transform_output [OF this] obtain dict where
      "region_mapping None = ([], Inr dict)"
      "out = aggregate (List.map_filter (record_key na parse dict) (master_rows m))"
      by (auto simp: region_mapping_no_flows)
    then have "out = aggregate (List.map_filter (record_key na parse []) (master_rows m))"
      by (simp add: region_mapping_no_flows)
    with a have "key_of a \<in> set (List.map_filter (record_key na parse []) (master_rows m))"
      by (simp add: in_aggregate)
    from record_key_no_dict [OF this] show "region a = ''Unknown''" by (simp add: key_of_def)
  qed
  from 1 2 n u True show ?thesis by (simp add: after_def)
qed

lemma example_renamed_run:
  "main NaAsText example_parse (example_session\<lparr>flows_csv := Some example_flows_renamed\<rparr>) =
     ([Info ''Step 1'', Info ''Step 2 (optional)'', Warning ''Flows columns missing'',
       Info ''Step 3'', Info ''Done''],
      Inr (Some (''counts.csv'',
        [\<lparr>region = ''Unknown'', country = Some ''France'', decade = 1870,
          medium_group = ''Paintings'', n_objects = 1\<rparr>,
         \<lparr>region = ''Unknown'', country = Some ''France'', decade = 1870,
          medium_group = ''Prints'', n_objects = 1\<rparr>,
         \<lparr>region = ''Unknown'', country = Some ''Japan'', decade = 1630,
          medium_group = ''Decorative arts'', n_objects = 1\<rparr>,
         \<lparr>region = ''Unknown'', country = Some ''Unknown'', decade = 2020,
          medium_group = ''Sculpture'', n_objects = 1\<rparr>,
         \<lparr>region = ''Unknown'', country = Some ''nan'', decade = 1630,
          medium_group = ''Decorative arts'', n_objects = 1\<rparr>])))"
  by code_simp

theorem flows_columns_missing_ignored_witness:
  "flows_path (example_session\<lparr>flows_csv := Some example_flows_renamed\<rparr>) \<noteq> [] \<and>
   flows_csv (example_session\<lparr>flows_csv := Some example_flows_renamed\<rparr>) =
     Some example_flows_renamed \<and>
   FLOWS_COUNTRY_COL \<notin> set (flows_columns example_flows_renamed) \<and>
   master_path (example_session\<lparr>flows_csv := Some example_flows_renamed\<rparr>) \<noteq> [] \<and>
   master_csv (example_session\<lparr>flows_csv := Some example_flows_renamed\<rparr>) = Some example_master \<and>
   missing_master example_master = [] \<and>
   main NaAsText example_parse
     (example_session\<lparr>flows_csv := Some example_flows_renamed, flows_path := []\<rparr>) =
     ([Info ''Step 1'', Info ''Step 2 (optional)'', Info ''Step 3'', Info ''Done''],
      snd (main NaAsText example_parse (example_session\<lparr>flows_csv := Some example_flows_renamed\<rparr>)))"
proof -
  let ?s = "example_session\<lparr>flows_csv := Some example_flows_renamed\<rparr>"
  have h1: "flows_path ?s \<noteq> []" by (simp add: example_session_def)
  have h2: "flows_csv ?s = Some example_flows_renamed" by simp
  have c: "FLOWS_COUNTRY_COL \<notin> set (flows_columns example_flows_renamed)"
    by (simp add: example_flows_renamed_def)
  then have h3: "FLOWS_COUNTRY_COL \<notin> set (flows_columns example_flows_renamed) \<or>
      FLOWS_REGION_COL \<notin> set (flows_columns example_flows_renamed)" by blast
  have m1: "master_path ?s \<noteq> []" by (simp add: example_session_def)
  have m2: "master_csv ?s = Some example_master" by (simp add: example_session_def)
  have m3: "missing_master example_master = []" by (simp add: missing_master_def example_master_def)
  from flows_columns_missing_ignored [OF h1 h2 h3, of NaAsText example_parse]
  have r: "snd (main NaAsText example_parse ?s) = snd (main NaAsText example_parse (?s\<lparr>flows_path := []\<rparr>))"
    and f: "filter (\<lambda>d. d \<noteq> Warning ''Flows columns missing'') (fst (main NaAsText example_parse ?s)) =
           fst (main NaAsText example_parse (?s\<lparr>flows_path := []\<rparr>))"
    by blast+
  from f have "fst (main NaAsText example_parse (?s\<lparr>flows_path := []\<rparr>)) =
      [Info ''Step 1'', Info ''Step 2 (optional)'', Info ''Step 3'', Info ''Done'']"
    by (simp add: example_renamed_run)
  with r have "main NaAsText example_parse (?s\<lparr>flows_path := []\<rparr>) =
     ([Info ''Step 1'', Info ''Step 2 (optional)'', Info ''Step 3'', Info ''Done''],
      snd (main NaAsText example_parse ?s))"
    by (simp add: prod_eq_iff)
  with h1 h2 c m1 m2 m3 show ?thesis by blast
qed

text \<open>
  C8. When the run reaches the decade step and the calculator returns NaN for every
  record, so that no record has a decade, it ends after the
  warning \<open>No data\<close>, without an exception and without writing a file. The step that
  follows the aggregation does the same on an empty table of groups; such a table arises
  only from an empty list of keys.
\<close>

theorem no_data_halts:
  assumes "master_path s \<noteq> []" and "master_csv s = Some m"
    and "flows_path s \<noteq> [] \<longrightarrow> flows_csv s \<noteq> None" and "missing_master m = []"
    and "\<forall>r \<in> set (master_rows m). compute_decade parse r = Inr None"
  shows "snd (main na parse s) = Inr None \<and>
         last (fst (main na parse s)) = Warning ''No data'' \<and>
         save [] s = ([Warning ''No data''], Inr None) \<and>
         (\<forall>keys. aggregate keys = [] \<longleftrightarrow> keys = [])"
proof -
  let ?f = "if flows_path s \<noteq> [] then flows_csv s else None"
  from region_mapping_total [of ?f] obtain ds dict where
    r: "region_mapping ?f = (ds, Inr dict)" by blast
  from assms(5) have "List.map_filter (record_key na parse dict) (master_rows m) = []"
    by (simp add: map_filter_empty filter_empty_conv decade_of_def)
  moreover from assms(5) have "\<not> list_ex (\<lambda>r. isl (compute_decade parse r)) (master_rows m)"
    by (simp add: list_ex_iff)
  ultimately have "transform na parse m ?f s = (ds @ [Warning ''No data''], Inr None)"
    by (simp add: transform_by_record [OF r] after_def)
  then have "main na parse s =
      ([Info ''Step 1'', Info ''Step 2 (optional)''] @ ds @ [Warning ''No data''], Inr None)"
    by (simp add: main_reaches_transform [OF assms(1-4)] after_def)
  then have "snd (main na parse s) = Inr None" "last (fst (main na parse s)) = Warning ''No data''"
    by simp_all
  moreover have "save [] s = ([Warning ''No data''], Inr None)" by (simp add: save_def)
  ultimately show ?thesis using aggregate_empty by blast
qed

theorem no_data_halts_witness:
  "master_path (example_session\<lparr>master_csv :=
       Some (example_master\<lparr>master_rows := drop 5 (master_rows example_master)\<rparr>)\<rparr>) \<noteq> [] \<and>
   missing_master (example_master\<lparr>master_rows := drop 5 (master_rows example_master)\<rparr>) = [] \<and>
   map (compute_decade example_parse) (drop 5 (master_rows example_master)) =
     [Inr None, Inr None] \<and>
   snd (main NaAsText example_parse (example_session\<lparr>master_csv :=
       Some (example_master\<lparr>master_rows := drop 5 (master_rows example_master)\<rparr>)\<rparr>)) = Inr None \<and>
   last (fst (main NaAsText example_parse (example_session\<lparr>master_csv :=
       Some (example_master\<lparr>master_rows := drop 5 (master_rows example_master)\<rparr>)\<rparr>))) =
     Warning ''No data''"
proof -
  let ?m = "example_master\<lparr>master_rows := drop 5 (master_rows example_master)\<rparr>"
  let ?s = "example_session\<lparr>master_csv := Some ?m\<rparr>"
  have h1: "master_path ?s \<noteq> []" by (simp add: example_session_def)
  have h2: "master_csv ?s = Some ?m" by simp
  have h3: "flows_path ?s \<noteq> [] \<longrightarrow> flows_csv ?s \<noteq> None" by (simp add: example_session_def)
  have h4: "missing_master ?m = []" by (simp add: missing_master_def example_master_def)
  have d: "drop 5 (master_rows example_master) =
      [master_rows example_master ! 5, master_rows example_master ! 6]"
    by (simp add: example_master_def)
  have "compute_decade example_parse (master_rows example_master ! 5) = Inr None"
    unfolding example_master_def by code_simp
  moreover have "compute_decade example_parse (master_rows example_master ! 6) = Inr None"
    unfolding example_master_def by code_simp
  ultimately have h5':
    "map (compute_decade example_parse) (drop 5 (master_rows example_master)) =
       [Inr None, Inr None]"
    by (simp add: d)
  then have "\<forall>r \<in> set (drop 5 (master_rows example_master)).
      compute_decade example_parse r = Inr None" by (simp add: d)
  then have h5: "\<forall>r \<in> set (master_rows ?m). compute_decade example_parse r = Inr None" by simp
  from no_data_halts [OF h1 h2 h3 h4 h5] h1 h4 h5' show ?thesis by blast
qed

end
